theory Spec2Isabelle
  imports Main "HOL-Library.AList"
begin

section \<open>Tennis ATP API: loader, enrichment and queries of app.py\<close>

text \<open>
  The development embeds \<^verbatim>\<open>src/app.py\<close>. A pandas DataFrame is a list of
  rows of a record type, in row order; a column that can hold a missing value (NaN, None)
  has an option type. Python's \<^verbatim>\<open>str\<close> is a \<open>string\<close>, whose characters are read
  as the code points below 256. An exception is a value of \<open>exn\<close>; a route answers
  with its JSON body (\<open>Inr\<close>) or with a \<open>failure\<close> (\<open>Inl\<close>).
\<close>

subsection \<open>Exceptions and failures\<close>

datatype exn =
  FileNotFoundError | IndexError | ValueError | KeyError string | ReError | AttributeError

text \<open>
  \<open>NotFound msg\<close> is the answer \<^verbatim>\<open>jsonify({"error": msg}), 404\<close>; \<open>Raised e\<close> is
  an exception that leaves the route.
\<close>

datatype failure = NotFound string | Raised exn

subsection \<open>Library operations taken as parameters\<close>

text \<open>
  What the code calls in Python and pandas, and this development does not define, is a
  field of \<open>pylib\<close>; every theorem holds for every value of it.
  \<^item> \<open>int_of_str s\<close> is \<^verbatim>\<open>int(s)\<close>, \<open>None\<close> for its ValueError;
  \<^item> \<open>re_compile pat\<close> is \<^verbatim>\<open>re.compile(pat, re.IGNORECASE).search\<close> as a
    predicate, \<open>None\<close> for \<^verbatim>\<open>re.error\<close>; it is used only for a pattern with a
    special character other than the dot (see \<open>str_contains\<close>);
  \<^item> \<open>true_div a b\<close> is the float \<^verbatim>\<open>a / b\<close> of two ints, \<open>float_mul x k\<close> is
    \<^verbatim>\<open>x * k\<close>, \<open>round_nd x n\<close> is \<^verbatim>\<open>round(x, n)\<close>, on a type \<open>'f\<close> of floats;
  \<^item> \<open>astype_str d\<close> is the text of a value of the Date column under
    \<^verbatim>\<open>astype(str)\<close>;
  \<^item> \<open>tie_rank dates i\<close> is the place that the sort of pandas gives to row \<open>i\<close> of a
    frame whose Date column is \<open>dates\<close>, among the rows of the same date (see
    \<open>sort_values_desc\<close>).
\<close>

record 'f pylib =
  int_of_str :: "string \<Rightarrow> int option"
  re_compile :: "string \<Rightarrow> (string \<Rightarrow> bool) option"
  true_div :: "int \<Rightarrow> int \<Rightarrow> 'f"
  float_mul :: "'f \<Rightarrow> int \<Rightarrow> 'f"
  round_nd :: "'f \<Rightarrow> int \<Rightarrow> 'f"
  astype_str :: "int \<Rightarrow> string"
  tie_rank :: "int list \<Rightarrow> nat \<Rightarrow> int"

subsection \<open>Tables\<close>

text \<open>Rows of \<^verbatim>\<open>dim_players.parquet\<close>.\<close>

record player =
  player_id :: int
  player_name :: "string option"

text \<open>
  Rows of \<^verbatim>\<open>dim_tournaments.parquet\<close>, columns \<^verbatim>\<open>tournament_id\<close>,
  \<^verbatim>\<open>Tournament\<close>, \<^verbatim>\<open>Surface\<close>, \<^verbatim>\<open>Series\<close> (prefixed here, the plain names
  being those of the enriched rows).
\<close>

record tournament =
  dim_tournament_id :: int
  dim_Tournament :: "string option"
  dim_Surface :: "string option"
  dim_Series :: "string option"

text \<open>Rows of one \<^verbatim>\<open>data.parquet\<close> of the fact table; \<open>Date\<close> is a point in time.\<close>

record raw_match =
  p1_id :: int
  p2_id :: int
  winner_id :: int
  tournament_id :: int
  Date :: int
  Round :: string
  Score :: string

text \<open>Rows of \<^verbatim>\<open>fact_matches\<close>: the columns \<^verbatim>\<open>year\<close> and \<^verbatim>\<open>month\<close> are added.\<close>

record fact = raw_match +
  year :: int
  month :: int

text \<open>Rows of \<^verbatim>\<open>fact_plus\<close>: the columns the four merges add.\<close>

record enriched = fact +
  p1_player_id :: "int option"
  p1_name :: "string option"
  p2_player_id :: "int option"
  p2_name :: "string option"
  w_player_id :: "int option"
  winner_name :: "string option"
  Tournament :: "string option"
  Surface :: "string option"
  Series :: "string option"

text \<open>
  \<^verbatim>\<open>pd.DataFrame()\<close> has no column and no row: \<open>NoColumns\<close>. Every other frame
  of fact rows has the columns of its row type.
\<close>

datatype 'r frame = NoColumns | Table "'r list"

fun frame_len :: "'r frame \<Rightarrow> nat" where
  "frame_len NoColumns = 0"
| "frame_len (Table rows) = length rows"

subsection \<open>Storage\<close>

text \<open>
  The directory \<^verbatim>\<open>pipeline_output\<close> as \<open>load_data\<close> reads it: the two dimension
  files (\<open>None\<close> when absent), and \<^verbatim>\<open>fact_matches\<close> (\<open>None\<close> when it does not
  exist) as the entries \<^verbatim>\<open>iterdir\<close> yields, in its order. \<open>data_parquet\<close> is the
  content of \<^verbatim>\<open>data.parquet\<close>, \<open>None\<close> when the file does not exist.
\<close>

record month_entry =
  month_name :: string
  month_is_dir :: bool
  data_parquet :: "raw_match list option"

record year_entry =
  year_name :: string
  year_is_dir :: bool
  year_iterdir :: "month_entry list"

record storage =
  dim_players_parquet :: "player list option"
  dim_tournaments_parquet :: "tournament list option"
  fact_matches_dir :: "year_entry list option"

subsection \<open>The partition loader\<close>

text \<open>\<^verbatim>\<open>s.split(c)\<close> for a one-character separator: at least one piece.\<close>

fun split_on :: "char \<Rightarrow> string \<Rightarrow> string list" where
  "split_on c [] = [[]]"
| "split_on c (x # xs) =
     (if x = c then [] # split_on c xs
      else (case split_on c xs of
              [] \<Rightarrow> [[x]]
            | p # ps \<Rightarrow> (x # p) # ps))"

text \<open>\<^verbatim>\<open>int(name.split("=")[1])\<close>.\<close>

definition partition_key :: "'f pylib \<Rightarrow> string \<Rightarrow> exn + int" where
  "partition_key lib name =
     (case split_on (CHR ''='') name of
        _ # k # _ \<Rightarrow> (case int_of_str lib k of None \<Rightarrow> Inl ValueError | Some n \<Rightarrow> Inr n)
      | _ \<Rightarrow> Inl IndexError)"

definition with_partition :: "int \<Rightarrow> int \<Rightarrow> raw_match \<Rightarrow> fact" where
  "with_partition y m r =
     \<lparr>p1_id = p1_id r, p2_id = p2_id r, winner_id = winner_id r,
      tournament_id = tournament_id r, Date = Date r, Round = Round r, Score = Score r,
      year = y, month = m\<rparr>"

text \<open>The body of the inner loop: the frames one month entry appends to \<open>fact_parts\<close>.\<close>

definition read_month :: "'f pylib \<Rightarrow> string \<Rightarrow> month_entry \<Rightarrow> exn + fact list list" where
  "read_month lib yname m =
     (if month_is_dir m then
        (case data_parquet m of
           None \<Rightarrow> Inr []
         | Some df \<Rightarrow>
             (case partition_key lib yname of
                Inl e \<Rightarrow> Inl e
              | Inr y \<Rightarrow>
                  (case partition_key lib (month_name m) of
                     Inl e \<Rightarrow> Inl e
                   | Inr mo \<Rightarrow> Inr [map (with_partition y mo) df])))
      else Inr [])"

fun read_months :: "'f pylib \<Rightarrow> string \<Rightarrow> month_entry list \<Rightarrow> exn + fact list list" where
  "read_months lib yname [] = Inr []"
| "read_months lib yname (m # ms) =
     (case read_month lib yname m of
        Inl e \<Rightarrow> Inl e
      | Inr ps \<Rightarrow>
          (case read_months lib yname ms of
             Inl e \<Rightarrow> Inl e
           | Inr qs \<Rightarrow> Inr (ps @ qs)))"

fun read_years :: "'f pylib \<Rightarrow> year_entry list \<Rightarrow> exn + fact list list" where
  "read_years lib [] = Inr []"
| "read_years lib (y # ys) =
     (case (if year_is_dir y then read_months lib (year_name y) (year_iterdir y) else Inr []) of
        Inl e \<Rightarrow> Inl e
      | Inr ps \<Rightarrow>
          (case read_years lib ys of
             Inl e \<Rightarrow> Inl e
           | Inr qs \<Rightarrow> Inr (ps @ qs)))"

definition read_fact_parts :: "'f pylib \<Rightarrow> year_entry list option \<Rightarrow> exn + fact list list" where
  "read_fact_parts lib fact_dir =
     (case fact_dir of None \<Rightarrow> Inr [] | Some ys \<Rightarrow> read_years lib ys)"

text \<open>
  \<^verbatim>\<open>pd.concat(fact_parts, ignore_index=True) if fact_parts else pd.DataFrame()\<close>
\<close>

definition concat_parts :: "fact list list \<Rightarrow> fact frame" where
  "concat_parts fact_parts = (if fact_parts = [] then NoColumns else Table (concat fact_parts))"

subsection \<open>Enrichment\<close>

text \<open>
  \<^verbatim>\<open>left.merge(right, left_on=lk, right_on=rk, how="left")\<close>: every left row, in
  order, with each right row of the same key, in the right table's order, or once with
  no right row when the key is absent.
\<close>

definition merge_left ::
  "('l \<Rightarrow> int) \<Rightarrow> ('r \<Rightarrow> int) \<Rightarrow> 'l list \<Rightarrow> 'r list \<Rightarrow> ('l \<times> 'r option) list" where
  "merge_left lk rk left right =
     concat (map (\<lambda>l. case filter (\<lambda>r. rk r = lk l) right of
                        [] \<Rightarrow> [(l, None)]
                      | rs \<Rightarrow> map (\<lambda>r. (l, Some r)) rs) left)"

text \<open>The row of \<open>fact_plus\<close> made of a fact row and the four rows joined to it.\<close>

definition enriched_row ::
  "(((fact \<times> player option) \<times> player option) \<times> player option) \<times> tournament option
     \<Rightarrow> enriched" where
  "enriched_row j =
     (case j of ((((f, a), b), w), t) \<Rightarrow>
        \<lparr>p1_id = p1_id f, p2_id = p2_id f, winner_id = winner_id f,
         tournament_id = tournament_id f, Date = Date f, Round = Round f, Score = Score f,
         year = year f, month = month f,
         p1_player_id = map_option player_id a, p1_name = Option.bind a player_name,
         p2_player_id = map_option player_id b, p2_name = Option.bind b player_name,
         w_player_id = map_option player_id w, winner_name = Option.bind w player_name,
         Tournament = Option.bind t dim_Tournament, Surface = Option.bind t dim_Surface,
         Series = Option.bind t dim_Series\<rparr>)"

text \<open>
  The four merges. A frame without columns has no \<^verbatim>\<open>p1_id\<close> to merge on: pandas
  raises \<^verbatim>\<open>KeyError: 'p1_id'\<close>.
\<close>

definition enrich :: "player list \<Rightarrow> tournament list \<Rightarrow> fact frame \<Rightarrow> exn + enriched list" where
  "enrich dp dt fm =
     (case fm of
        NoColumns \<Rightarrow> Inl (KeyError ''p1_id'')
      | Table rows \<Rightarrow>
          Inr (map enriched_row
                 (merge_left (\<lambda>j. tournament_id (fst (fst (fst j)))) dim_tournament_id
                    (merge_left (\<lambda>j. winner_id (fst (fst j))) player_id
                       (merge_left (\<lambda>j. p2_id (fst j)) player_id
                          (merge_left p1_id player_id rows dp) dp) dp) dt)))"

text \<open>The globals \<open>load_data\<close> sets.\<close>

record snapshot =
  dim_players :: "player list"
  dim_tournaments :: "tournament list"
  fact_matches :: "fact frame"
  fact_plus :: "enriched list"

definition load_data :: "'f pylib \<Rightarrow> storage \<Rightarrow> exn + snapshot" where
  "load_data lib st =
     (case dim_players_parquet st of
        None \<Rightarrow> Inl FileNotFoundError
      | Some dp \<Rightarrow>
          (case dim_tournaments_parquet st of
             None \<Rightarrow> Inl FileNotFoundError
           | Some dt \<Rightarrow>
               (case read_fact_parts lib (fact_matches_dir st) of
                  Inl e \<Rightarrow> Inl e
                | Inr fact_parts \<Rightarrow>
                    (let fm = concat_parts fact_parts in
                     case enrich dp dt fm of
                       Inl e \<Rightarrow> Inl e
                     | Inr fp \<Rightarrow>
                         Inr \<lparr>dim_players = dp, dim_tournaments = dt,
                              fact_matches = fm, fact_plus = fp\<rparr>))))"

text \<open>The columns of \<open>fact_matches\<close> in a row of \<open>fact_plus\<close>.\<close>

definition fact_columns :: "enriched \<Rightarrow> fact" where
  "fact_columns e =
     \<lparr>p1_id = p1_id e, p2_id = p2_id e, winner_id = winner_id e,
      tournament_id = tournament_id e, Date = Date e, Round = Round e, Score = Score e,
      year = year e, month = month e\<rparr>"

subsection \<open>Strings\<close>

text \<open>\<^verbatim>\<open>s.lower()\<close>, on code points below 256: the ASCII and the Latin-1 capitals.\<close>

definition lower_chr :: "char \<Rightarrow> char" where
  "lower_chr c =
     (let n = (of_char c :: nat) in
      if (65 \<le> n \<and> n \<le> 90) \<or> (192 \<le> n \<and> n \<le> 222 \<and> n \<noteq> 215)
      then char_of (n + 32) else c)"

definition lower :: "string \<Rightarrow> string" where
  "lower s = map lower_chr s"

text \<open>\<^verbatim>\<open>name.replace("%20", " ")\<close>: the occurrences from the left, not overlapping.\<close>

fun replace_pct20 :: "string \<Rightarrow> string" where
  "replace_pct20 (a # b # c # cs) =
     (if a = CHR ''%'' \<and> b = CHR ''2'' \<and> c = CHR ''0''
      then CHR '' '' # replace_pct20 cs
      else a # replace_pct20 (b # c # cs))"
| "replace_pct20 cs = cs"

text \<open>\<^verbatim>\<open>sub in s\<close> on strings.\<close>

fun starts_with :: "string \<Rightarrow> string \<Rightarrow> bool" where
  "starts_with [] s = True"
| "starts_with (p # ps) [] = False"
| "starts_with (p # ps) (c # cs) = (p = c \<and> starts_with ps cs)"

fun is_in :: "string \<Rightarrow> string \<Rightarrow> bool" where
  "is_in sub [] = starts_with sub []"
| "is_in sub (c # cs) = (starts_with sub (c # cs) \<or> is_in sub cs)"

subsection \<open>\<^verbatim>\<open>Series.str.contains(pat, case=False, na=False)\<close>\<close>

text \<open>
  The call leaves \<^verbatim>\<open>regex\<close> at its default \<^verbatim>\<open>True\<close>: pandas compiles
  \<^verbatim>\<open>pat\<close> with \<^verbatim>\<open>re.IGNORECASE\<close> and keeps the values in which the compiled
  pattern is found (\<^verbatim>\<open>search\<close>), a missing value counting as \<^verbatim>\<open>False\<close>.

  The characters special to \<^verbatim>\<open>re\<close> are \<^verbatim>\<open>. ^ $ * + ? { } [ ] \ | ( )\<close>. A
  pattern whose only special character is the dot is matched here: a dot stands for any
  character but the newline, any other character for itself up to case. Every other
  pattern is left to \<open>re_compile\<close>.
\<close>

definition re_special_not_dot :: "char list" where
  "re_special_not_dot =
     [CHR ''^'', CHR ''$'', CHR ''*'', CHR ''+'', CHR ''?'', CHR ''{'', CHR ''}'',
      CHR ''['', CHR '']'', CHR 0x5C, CHR ''|'', CHR ''('', CHR '')'']"

definition atom_matches :: "char \<Rightarrow> char \<Rightarrow> bool" where
  "atom_matches p c =
     (if p = CHR ''.'' then c \<noteq> CHR 0x0A else lower_chr p = lower_chr c)"

fun match_here :: "string \<Rightarrow> string \<Rightarrow> bool" where
  "match_here [] s = True"
| "match_here (p # ps) [] = False"
| "match_here (p # ps) (c # cs) = (atom_matches p c \<and> match_here ps cs)"

fun search_dots :: "string \<Rightarrow> string \<Rightarrow> bool" where
  "search_dots pat [] = match_here pat []"
| "search_dots pat (c # cs) = (match_here pat (c # cs) \<or> search_dots pat cs)"

definition re_search_ignorecase :: "'f pylib \<Rightarrow> string \<Rightarrow> (string \<Rightarrow> bool) option" where
  "re_search_ignorecase lib pat =
     (if list_all (\<lambda>c. c \<notin> set re_special_not_dot) pat then Some (search_dots pat)
      else re_compile lib pat)"

text \<open>The mask of one value, \<open>None\<close> when the pattern does not compile.\<close>

definition str_contains :: "'f pylib \<Rightarrow> string \<Rightarrow> (string option \<Rightarrow> bool) option" where
  "str_contains lib pat =
     (case re_search_ignorecase lib pat of
        None \<Rightarrow> None
      | Some found \<Rightarrow> Some (\<lambda>x. case x of None \<Rightarrow> False | Some s \<Rightarrow> found s))"

text \<open>
  \<^verbatim>\<open>column == value\<close>: a missing value equals nothing, itself included.
\<close>

definition col_eq :: "'a option \<Rightarrow> 'a option \<Rightarrow> bool" where
  "col_eq x v = (case v of None \<Rightarrow> False | Some s \<Rightarrow> x = Some s)"

text \<open>\<^verbatim>\<open>xs[:limit]\<close>, and \<^verbatim>\<open>head(limit)\<close>: a negative limit drops from the end.\<close>

definition slice_to :: "int \<Rightarrow> 'a list \<Rightarrow> 'a list" where
  "slice_to limit xs =
     (if 0 \<le> limit then take (nat limit) xs else take (length xs - nat (- limit)) xs)"

text \<open>
  \<^verbatim>\<open>sort_values("Date", ascending=False)\<close>: the rows by decreasing date. The
  default sort of pandas is not stable: the order of the rows of one date is what its
  algorithm makes of the Date column, and is taken from \<open>tie_rank\<close>. The rows are
  numbered, put in the order of their ranks, and then sorted by date, which keeps rows
  of one date in the order of their ranks. Whatever \<open>tie_rank\<close> is, the result has the
  rows of the frame, by decreasing date.
\<close>

definition sort_values_desc :: "'f pylib \<Rightarrow> enriched list \<Rightarrow> enriched list" where
  "sort_values_desc lib rows =
     map snd
       (sort_key (\<lambda>p. - Date (snd p))
          (sort_key (\<lambda>p. tie_rank lib (map Date rows) (fst p)) (enumerate 0 rows)))"

text \<open>\<^verbatim>\<open>astype(str).str[:10]\<close> on the Date column.\<close>

definition date_str10 :: "'f pylib \<Rightarrow> int \<Rightarrow> string" where
  "date_str10 lib d = take 10 (astype_str lib d)"

subsection \<open>Responses\<close>

text \<open>The key \<^verbatim>\<open>generated_at\<close>, which three responses carry.\<close>

record stamped =
  generated_at :: string

text \<open>
  A win/loss record. Its count has the key \<^verbatim>\<open>total_matches\<close> in \<^verbatim>\<open>career\<close> and
  \<^verbatim>\<open>matches\<close> in an entry of \<^verbatim>\<open>by_surface\<close>.
\<close>

record 'f stats =
  matches :: int
  wins :: int
  losses :: int
  win_rate :: 'f

record 'f player_stats_response = stamped +
  player :: "string option"
  career :: "'f stats"
  by_surface :: "(string \<times> 'f stats) list"

text \<open>
  A row of \<^verbatim>\<open>recent_matches\<close>, keys \<^verbatim>\<open>Date\<close>, \<^verbatim>\<open>Tournament\<close>, \<^verbatim>\<open>Round\<close>,
  \<^verbatim>\<open>Surface\<close>, \<^verbatim>\<open>winner_name\<close>, \<^verbatim>\<open>Score\<close>.
\<close>

record recent_match =
  rm_Date :: string
  rm_Tournament :: "string option"
  rm_Round :: string
  rm_Surface :: "string option"
  rm_winner_name :: "string option"
  rm_Score :: string

record h2h_counts =
  p1_wins :: int
  p2_wins :: int
  total :: int

record head_to_head_response = stamped +
  player_1 :: "string option"
  player_2 :: "string option"
  head_to_head_counts :: h2h_counts
  recent_matches :: "recent_match list"

text \<open>A row of \<^verbatim>\<open>recent_champions\<close>, keys \<^verbatim>\<open>year\<close>, \<^verbatim>\<open>champion\<close>, \<^verbatim>\<open>score\<close>.\<close>

record champion_row =
  ch_year :: string
  ch_champion :: "string option"
  ch_score :: string

record tournament_details_response = stamped +
  tournament :: "string option"
  surface :: "string option"
  series :: "string option"
  total_matches :: int
  recent_champions :: "champion_row list"

record list_players_response =
  lp_count :: int
  lp_total :: int
  players :: "string option list"

text \<open>A row of \<^verbatim>\<open>tournaments\<close>, keys \<^verbatim>\<open>Tournament\<close>, \<^verbatim>\<open>Series\<close>, \<^verbatim>\<open>Surface\<close>.\<close>

record tournament_row =
  tr_Tournament :: "string option"
  tr_Series :: "string option"
  tr_Surface :: "string option"

record list_tournaments_response =
  lt_count :: int
  lt_total :: int
  tournaments :: "tournament_row list"

subsection \<open>\<^verbatim>\<open>player_stats\<close>\<close>

text \<open>
  \<^verbatim>\<open>dim_players[dim_players["player_name"].str.contains(player_name, case=False, na=False)]\<close>,
  \<open>None\<close> when the pattern does not compile.
\<close>

definition player_candidates :: "'f pylib \<Rightarrow> player list \<Rightarrow> string \<Rightarrow> player list option" where
  "player_candidates lib dp q =
     (case str_contains lib q of
        None \<Rightarrow> None
      | Some contains \<Rightarrow> Some (filter (\<lambda>p. contains (player_name p)) dp))"

text \<open>
  \<open>all_matches\<close>: the rows where the name is \<open>p1_name\<close>, then those where it is
  \<open>p2_name\<close>, each with its column \<^verbatim>\<open>is_win\<close>.
\<close>

definition p1_matches :: "enriched list \<Rightarrow> string option \<Rightarrow> (enriched \<times> bool) list" where
  "p1_matches fp nm =
     map (\<lambda>m. (m, winner_id m = p1_id m)) (filter (\<lambda>m. col_eq (p1_name m) nm) fp)"

definition p2_matches :: "enriched list \<Rightarrow> string option \<Rightarrow> (enriched \<times> bool) list" where
  "p2_matches fp nm =
     map (\<lambda>m. (m, winner_id m = p2_id m)) (filter (\<lambda>m. col_eq (p2_name m) nm) fp)"

definition all_matches :: "enriched list \<Rightarrow> string option \<Rightarrow> (enriched \<times> bool) list" where
  "all_matches fp nm = p1_matches fp nm @ p2_matches fp nm"

text \<open>\<^verbatim>\<open>int(ms["is_win"].sum())\<close>\<close>

definition is_win_sum :: "(enriched \<times> bool) list \<Rightarrow> int" where
  "is_win_sum ms = int (length (filter snd ms))"

text \<open>\<^verbatim>\<open>round(w / n * 100, 1)\<close>\<close>

definition rate :: "'f pylib \<Rightarrow> int \<Rightarrow> int \<Rightarrow> 'f" where
  "rate lib w n = round_nd lib (float_mul lib (true_div lib w n) 100) 1"

text \<open>\<^verbatim>\<open>all_matches[all_matches["Surface"] == surface]\<close>\<close>

definition on_surface :: "string \<Rightarrow> (enriched \<times> bool) list \<Rightarrow> (enriched \<times> bool) list" where
  "on_surface sf ms = filter (\<lambda>r. col_eq (Surface (fst r)) (Some sf)) ms"

text \<open>One turn of the loop over the surfaces, on the dictionary \<open>surface_stats\<close>.\<close>

definition surface_step ::
  "'f pylib \<Rightarrow> (enriched \<times> bool) list \<Rightarrow> string \<Rightarrow> (string \<times> 'f stats) list
     \<Rightarrow> (string \<times> 'f stats) list" where
  "surface_step lib ms sf d =
     (let s_matches = on_surface sf ms in
      if length s_matches > 0 then
        (let s_wins = is_win_sum s_matches in
         AList.update (lower sf)
           \<lparr>matches = int (length s_matches), wins = s_wins,
            losses = int (length s_matches) - s_wins,
            win_rate = rate lib s_wins (int (length s_matches))\<rparr> d)
      else d)"

definition surface_stats :: "'f pylib \<Rightarrow> (enriched \<times> bool) list \<Rightarrow> (string \<times> 'f stats) list" where
  "surface_stats lib ms = fold (surface_step lib ms) [''Hard'', ''Clay'', ''Grass''] []"

text \<open>\<open>now\<close> is what \<^verbatim>\<open>datetime.now().isoformat()\<close> returns at the call.\<close>

definition player_stats ::
  "'f pylib \<Rightarrow> snapshot \<Rightarrow> string \<Rightarrow> string \<Rightarrow> failure + 'f player_stats_response" where
  "player_stats lib snap now name =
     (let q = replace_pct20 name in
      case player_candidates lib (dim_players snap) q of
        None \<Rightarrow> Inl (Raised ReError)
      | Some [] \<Rightarrow> Inl (NotFound (''Player '' @ [CHR 0x27] @ q @ [CHR 0x27] @ '' not found''))
      | Some (p # _) \<Rightarrow>
          (let nm = player_name p;
               ms = all_matches (fact_plus snap) nm
           in if length ms = 0 then Inl (NotFound ''No matches found for player'')
              else
                (let w = is_win_sum ms;
                     l = int (length ms) - w
                 in Inr \<lparr>generated_at = now,
                         player = nm,
                         career = \<lparr>matches = int (length ms), wins = w, losses = l,
                                   win_rate = rate lib w (int (length ms))\<rparr>,
                         by_surface = surface_stats lib ms\<rparr>)))"

subsection \<open>\<^verbatim>\<open>head_to_head\<close>\<close>

definition recent_match_row :: "'f pylib \<Rightarrow> enriched \<Rightarrow> recent_match" where
  "recent_match_row lib m =
     \<lparr>rm_Date = date_str10 lib (Date m), rm_Tournament = Tournament m, rm_Round = Round m,
      rm_Surface = Surface m, rm_winner_name = winner_name m, rm_Score = Score m\<rparr>"

text \<open>The frame \<open>h2h\<close>, \<open>None\<close> when a pattern does not compile.\<close>

definition h2h_rows :: "'f pylib \<Rightarrow> enriched list \<Rightarrow> string \<Rightarrow> string \<Rightarrow> enriched list option" where
  "h2h_rows lib fp p1 p2 =
     (case str_contains lib p1 of
        None \<Rightarrow> None
      | Some c1 \<Rightarrow>
          (case str_contains lib p2 of
             None \<Rightarrow> None
           | Some c2 \<Rightarrow>
               Some (sort_values_desc lib
                       (filter (\<lambda>m. (c1 (p1_name m) \<and> c2 (p2_name m)) \<or>
                                     (c2 (p1_name m) \<and> c1 (p2_name m))) fp))))"

definition head_to_head ::
  "'f pylib \<Rightarrow> snapshot \<Rightarrow> string \<Rightarrow> string \<Rightarrow> string \<Rightarrow> failure + head_to_head_response" where
  "head_to_head lib snap now player1 player2 =
     (let p1 = replace_pct20 player1;
          p2 = replace_pct20 player2
      in case h2h_rows lib (fact_plus snap) p1 p2 of
           None \<Rightarrow> Inl (Raised ReError)
         | Some [] \<Rightarrow> Inl (NotFound ''No head-to-head matches found'')
         | Some (m0 # rest) \<Rightarrow>
             (let h2h = m0 # rest;
                  actual_p1 = p1_name m0;
                  actual_p2 = p2_name m0
              in Inr \<lparr>generated_at = now,
                      player_1 = actual_p1,
                      player_2 = actual_p2,
                      head_to_head_counts =
                        \<lparr>p1_wins = int (length (filter (\<lambda>m. col_eq (winner_name m) actual_p1) h2h)),
                         p2_wins = int (length (filter (\<lambda>m. col_eq (winner_name m) actual_p2) h2h)),
                         total = int (length h2h)\<rparr>,
                      recent_matches = map (recent_match_row lib) (take 10 h2h)\<rparr>))"

subsection \<open>\<^verbatim>\<open>tournament_details\<close>\<close>

definition tournament_matches :: "'f pylib \<Rightarrow> enriched list \<Rightarrow> string \<Rightarrow> enriched list option" where
  "tournament_matches lib fp q =
     (case str_contains lib q of
        None \<Rightarrow> None
      | Some contains \<Rightarrow> Some (filter (\<lambda>m. contains (Tournament m)) fp))"

text \<open>\<open>finals.head(10)\<close>\<close>

definition finals_head :: "'f pylib \<Rightarrow> enriched list \<Rightarrow> enriched list" where
  "finals_head lib ms =
     take 10 (sort_values_desc lib (filter (\<lambda>m. Round m = ''The Final'') ms))"

definition champion :: "'f pylib \<Rightarrow> enriched \<Rightarrow> champion_row" where
  "champion lib m =
     \<lparr>ch_year = date_str10 lib (Date m), ch_champion = winner_name m, ch_score = Score m\<rparr>"

definition tournament_details ::
  "'f pylib \<Rightarrow> snapshot \<Rightarrow> string \<Rightarrow> string \<Rightarrow> failure + tournament_details_response" where
  "tournament_details lib snap now name =
     (case tournament_matches lib (fact_plus snap) (replace_pct20 name) of
        None \<Rightarrow> Inl (Raised ReError)
      | Some [] \<Rightarrow> Inl (NotFound ''Tournament not found'')
      | Some (m0 # rest) \<Rightarrow>
          Inr \<lparr>generated_at = now,
               tournament = Tournament m0,
               surface = Surface m0,
               series = Series m0,
               total_matches = int (length (m0 # rest)),
               recent_champions = map (champion lib) (finals_head lib (m0 # rest))\<rparr>)"

subsection \<open>\<^verbatim>\<open>list_players\<close> and \<^verbatim>\<open>list_tournaments\<close>\<close>

text \<open>
  The query arguments are what \<^verbatim>\<open>request.args.get\<close> finds: \<open>None\<close> for an
  absent argument. \<^verbatim>\<open>int(request.args.get("limit", 50))\<close>:
\<close>

definition limit_of :: "'f pylib \<Rightarrow> string option \<Rightarrow> exn + int" where
  "limit_of lib arg =
     (case arg of
        None \<Rightarrow> Inr 50
      | Some s \<Rightarrow> (case int_of_str lib s of None \<Rightarrow> Inl ValueError | Some n \<Rightarrow> Inr n))"

text \<open>
  \<^verbatim>\<open>[p for p in players if search in p.lower()]\<close>: a missing name has no
  \<^verbatim>\<open>lower\<close>.
\<close>

fun search_players :: "string \<Rightarrow> string option list \<Rightarrow> exn + string option list" where
  "search_players search [] = Inr []"
| "search_players search (p # ps) =
     (case p of
        None \<Rightarrow> Inl AttributeError
      | Some s \<Rightarrow>
          (case search_players search ps of
             Inl e \<Rightarrow> Inl e
           | Inr r \<Rightarrow> Inr (if is_in search (lower s) then p # r else r)))"

definition list_players ::
  "'f pylib \<Rightarrow> snapshot \<Rightarrow> string option \<Rightarrow> string option \<Rightarrow> failure + list_players_response" where
  "list_players lib snap q_arg limit_arg =
     (let search = lower (case q_arg of None \<Rightarrow> [] | Some q \<Rightarrow> q) in
      case limit_of lib limit_arg of
        Inl e \<Rightarrow> Inl (Raised e)
      | Inr limit \<Rightarrow>
          (case (if search \<noteq> [] then search_players search (map player_name (dim_players snap))
                 else Inr (map player_name (dim_players snap))) of
             Inl e \<Rightarrow> Inl (Raised e)
           | Inr ps \<Rightarrow>
               Inr \<lparr>lp_count = int (length (slice_to limit ps)),
                    lp_total = int (length ps),
                    players = slice_to limit ps\<rparr>))"

definition tournament_row_of :: "tournament \<Rightarrow> tournament_row" where
  "tournament_row_of t =
     \<lparr>tr_Tournament = dim_Tournament t, tr_Series = dim_Series t, tr_Surface = dim_Surface t\<rparr>"

definition list_tournaments ::
  "'f pylib \<Rightarrow> snapshot \<Rightarrow> string option \<Rightarrow> string option
     \<Rightarrow> failure + list_tournaments_response" where
  "list_tournaments lib snap limit_arg surface_arg =
     (case limit_of lib limit_arg of
        Inl e \<Rightarrow> Inl (Raised e)
      | Inr limit \<Rightarrow>
          (let ts = (case surface_arg of
                       None \<Rightarrow> dim_tournaments snap
                     | Some sf \<Rightarrow>
                         if sf \<noteq> [] then
                           filter (\<lambda>t. col_eq (map_option lower (dim_Surface t)) (Some (lower sf)))
                             (dim_tournaments snap)
                         else dim_tournaments snap)
           in Inr \<lparr>lt_count = int (length (slice_to limit ts)),
                   lt_total = int (length ts),
                   tournaments = map tournament_row_of (slice_to limit ts)\<rparr>))"

subsection \<open>Notions the properties are stated with\<close>

text \<open>The player of identifier \<open>pid\<close> is on the first, or on the second, side of a row.\<close>

definition plays_p1 :: "int \<Rightarrow> enriched \<Rightarrow> bool" where
  "plays_p1 pid m = (p1_id m = pid)"

definition plays_p2 :: "int \<Rightarrow> enriched \<Rightarrow> bool" where
  "plays_p2 pid m = (p2_id m = pid)"

definition plays :: "int \<Rightarrow> enriched \<Rightarrow> bool" where
  "plays pid m = (plays_p1 pid m \<or> plays_p2 pid m)"

text \<open>
  What a left merge joins to a left row of key \<open>k\<close>: a right row of that key, or
  nothing when the right table has none.
\<close>

definition joined :: "('r \<Rightarrow> int) \<Rightarrow> 'r list \<Rightarrow> int \<Rightarrow> 'r option \<Rightarrow> bool" where
  "joined rk right k r =
     (case r of
        None \<Rightarrow> list_all (\<lambda>x. rk x \<noteq> k) right
      | Some x \<Rightarrow> x \<in> set right \<and> rk x = k)"

text \<open>A row with the column \<^verbatim>\<open>is_win\<close> of the player of identifier \<open>pid\<close>.\<close>

definition won_by :: "int \<Rightarrow> enriched \<Rightarrow> enriched \<times> bool" where
  "won_by pid m = (m, winner_id m = pid)"

text \<open>
  The matches of the player of identifier \<open>pid\<close>, as the specification words them: the
  rows where the player is on the first side, then those where the player is on the
  second, each a win when \<open>winner_id\<close> is the player's identifier.
\<close>

definition matches_of_player :: "int \<Rightarrow> enriched list \<Rightarrow> (enriched \<times> bool) list" where
  "matches_of_player pid fp =
     map (won_by pid) (filter (plays_p1 pid) fp) @ map (won_by pid) (filter (plays_p2 pid) fp)"

text \<open>
  The entry of \<^verbatim>\<open>by_surface\<close> for a surface, as the specification words it: none
  when no collected match is on the surface, else the record of the matches on it.
\<close>

definition surface_entry ::
  "'f pylib \<Rightarrow> (enriched \<times> bool) list \<Rightarrow> string \<Rightarrow> (string \<times> 'f stats) list" where
  "surface_entry lib ms sf =
     (if on_surface sf ms = [] then []
      else [(lower sf,
             \<lparr>matches = int (length (on_surface sf ms)),
              wins = is_win_sum (on_surface sf ms),
              losses = int (length (on_surface sf ms)) - is_win_sum (on_surface sf ms),
              win_rate = rate lib (is_win_sum (on_surface sf ms))
                           (int (length (on_surface sf ms)))\<rparr>)])"

text \<open>No other row of the player dimension has the name of \<open>p\<close>.\<close>

definition sole_bearer :: "player list \<Rightarrow> player \<Rightarrow> bool" where
  "sole_bearer dp p = (filter (\<lambda>q. player_name q = player_name p) dp = [p])"

text \<open>Two consecutive rows of a list by decreasing date: strictly, or not.\<close>

definition later :: "enriched \<Rightarrow> enriched \<Rightarrow> bool" where
  "later a b = (Date b < Date a)"

definition not_earlier :: "enriched \<Rightarrow> enriched \<Rightarrow> bool" where
  "not_earlier a b = (Date b \<le> Date a)"

definition is_final :: "enriched \<Rightarrow> bool" where
  "is_final m = (Round m = ''The Final'')"

text \<open>The query is a substring of the name, up to case.\<close>

definition contained_ignoring_case :: "string \<Rightarrow> string \<Rightarrow> bool" where
  "contained_ignoring_case q name = is_in (lower q) (lower name)"

text \<open>A query without any character special to \<^verbatim>\<open>re\<close>.\<close>

definition plain_query :: "string \<Rightarrow> bool" where
  "plain_query q = list_all (\<lambda>c. c \<noteq> CHR ''.'' \<and> c \<notin> set re_special_not_dot) q"

text \<open>The name of a player, or of the tournament of a row, contains the query.\<close>

definition name_contains :: "string \<Rightarrow> string option \<Rightarrow> bool" where
  "name_contains q x = (case x of None \<Rightarrow> False | Some s \<Rightarrow> contained_ignoring_case q s)"

definition player_contains :: "string \<Rightarrow> player \<Rightarrow> bool" where
  "player_contains q p = name_contains q (player_name p)"

definition tournament_contains :: "string \<Rightarrow> enriched \<Rightarrow> bool" where
  "tournament_contains q m = name_contains q (Tournament m)"

text \<open>A response with another time of generation.\<close>

definition restamp :: "string \<Rightarrow> 'e + 'a stamped_scheme \<Rightarrow> 'e + 'a stamped_scheme" where
  "restamp t res = (case res of Inl e \<Rightarrow> Inl e | Inr r \<Rightarrow> Inr (r\<lparr>generated_at := t\<rparr>))"

subsection \<open>An instance of the library, and data, for the worked examples\<close>

text \<open>
  Floats as the expressions that compute them; decimal digits for \<^verbatim>\<open>int\<close>; a
  date as its day number, written with ten digits before the time of day; rows of one
  date in the order of the table, as pandas leaves them in a frame of a few rows. The
  examples use no pattern that reaches \<open>re_compile\<close>.
\<close>

datatype fexpr = Div int int | Mul fexpr int | RoundN fexpr int

fun digits_val :: "string \<Rightarrow> int \<Rightarrow> int option" where
  "digits_val [] acc = Some acc"
| "digits_val (c # cs) acc =
     (let n = (of_char c :: nat) in
      if 48 \<le> n \<and> n \<le> 57 then digits_val cs (10 * acc + int (n - 48)) else None)"

definition digit_chr :: "int \<Rightarrow> char" where
  "digit_chr d = char_of (48 + nat (d mod 10))"

definition lib_ex :: "fexpr pylib" where
  "lib_ex =
     \<lparr>int_of_str = (\<lambda>s. if s = [] then None else digits_val s 0),
      re_compile = (\<lambda>pat. None),
      true_div = Div,
      float_mul = Mul,
      round_nd = RoundN,
      astype_str = (\<lambda>d. map (\<lambda>k. digit_chr (d div 10 ^ k)) (rev [0..<10]) @ '' 00:00:00''),
      tie_rank = (\<lambda>dates i. int i)\<rparr>"

definition nadal :: player where
  "nadal = \<lparr>player_id = 1, player_name = Some ''Rafael Nadal''\<rparr>"

definition federer :: player where
  "federer = \<lparr>player_id = 2, player_name = Some ''Roger Federer''\<rparr>"

definition murray :: player where
  "murray = \<lparr>player_id = 3, player_name = Some ''Andy Murray''\<rparr>"

definition nameless :: player where
  "nameless = \<lparr>player_id = 4, player_name = None\<rparr>"

definition smith_a :: player where
  "smith_a = \<lparr>player_id = 11, player_name = Some ''John Smith''\<rparr>"

definition smith_b :: player where
  "smith_b = \<lparr>player_id = 12, player_name = Some ''John Smith''\<rparr>"

definition roland_garros :: tournament where
  "roland_garros =
     \<lparr>dim_tournament_id = 7, dim_Tournament = Some ''Roland Garros'',
      dim_Surface = Some ''Clay'', dim_Series = Some ''Grand Slam''\<rparr>"

definition wimbledon :: tournament where
  "wimbledon =
     \<lparr>dim_tournament_id = 8, dim_Tournament = Some ''Wimbledon'',
      dim_Surface = Some ''Grass'', dim_Series = Some ''Grand Slam''\<rparr>"

definition qatar_open :: tournament where
  "qatar_open =
     \<lparr>dim_tournament_id = 21, dim_Tournament = Some ''Qatar Open'',
      dim_Surface = Some ''Hard'', dim_Series = Some ''ATP250''\<rparr>"

definition chennai_open :: tournament where
  "chennai_open =
     \<lparr>dim_tournament_id = 22, dim_Tournament = Some ''Chennai Open'',
      dim_Surface = Some ''Hard'', dim_Series = Some ''ATP250''\<rparr>"

text \<open>A row of a \<^verbatim>\<open>data.parquet\<close>, its columns in the order of \<open>raw_match\<close>.\<close>

definition match_row :: "int \<Rightarrow> int \<Rightarrow> int \<Rightarrow> int \<Rightarrow> int \<Rightarrow> string \<Rightarrow> string \<Rightarrow> raw_match" where
  "match_row a b w t d r sc =
     \<lparr>p1_id = a, p2_id = b, winner_id = w, tournament_id = t, Date = d, Round = r, Score = sc\<rparr>"

text \<open>One month of one year, under the names of the partition directories.\<close>

definition partition_dir :: "string \<Rightarrow> string \<Rightarrow> raw_match list \<Rightarrow> year_entry" where
  "partition_dir y m df =
     \<lparr>year_name = y, year_is_dir = True,
      year_iterdir = [\<lparr>month_name = m, month_is_dir = True, data_parquet = Some df\<rparr>]\<rparr>"

text \<open>
  Two players and a third without a match, a player without a name; a Roland Garros
  final, a semifinal against a player and at a tournament that the dimensions do not
  have, a Wimbledon final. One entry of \<^verbatim>\<open>fact_matches\<close> is a file, one month
  directory is empty.
\<close>

definition rg_final :: raw_match where
  "rg_final = match_row 1 2 1 7 14038 ''The Final'' ''6-1 6-3 6-0''"

definition rg_semi :: raw_match where
  "rg_semi = match_row 1 9 1 99 14036 ''Semifinals'' ''6-4 6-2 7-6''"

definition wim_final :: raw_match where
  "wim_final = match_row 2 1 1 8 14066 ''The Final'' ''6-4 6-4 6-7 6-7 9-7''"

definition storage_ex :: storage where
  "storage_ex =
     \<lparr>dim_players_parquet = Some [nadal, federer, murray, nameless],
      dim_tournaments_parquet = Some [roland_garros, wimbledon],
      fact_matches_dir =
        Some [partition_dir ''year=2008'' ''month=06'' [rg_final, rg_semi],
              \<lparr>year_name = ''_SUCCESS'', year_is_dir = False, year_iterdir = []\<rparr>,
              \<lparr>year_name = ''year=2008'', year_is_dir = True,
               year_iterdir =
                 [\<lparr>month_name = ''month=07'', month_is_dir = True,
                   data_parquet = Some [wim_final]\<rparr>,
                  \<lparr>month_name = ''month=08'', month_is_dir = True, data_parquet = None\<rparr>]\<rparr>]\<rparr>"

definition snap_ex :: snapshot where
  "snap_ex =
     \<lparr>dim_players = [nadal, federer, murray, nameless],
      dim_tournaments = [roland_garros, wimbledon],
      fact_matches =
        Table [with_partition 2008 6 rg_final, with_partition 2008 6 rg_semi,
               with_partition 2008 7 wim_final],
      fact_plus =
        map enriched_row
          [((((with_partition 2008 6 rg_final, Some nadal), Some federer), Some nadal),
            Some roland_garros),
           ((((with_partition 2008 6 rg_semi, Some nadal), None), Some nadal), None),
           ((((with_partition 2008 7 wim_final, Some federer), Some nadal), Some nadal),
            Some wimbledon)]\<rparr>"

text \<open>Two players of one name; the second has played the only match.\<close>

definition storage_namesakes :: storage where
  "storage_namesakes =
     \<lparr>dim_players_parquet = Some [smith_a, smith_b, murray],
      dim_tournaments_parquet = Some [wimbledon],
      fact_matches_dir =
        Some [partition_dir ''year=2010'' ''month=06''
                [match_row 12 3 12 8 14780 ''1st Round'' ''6-3 6-3 6-3'']]\<rparr>"

definition snap_namesakes :: snapshot where
  "snap_namesakes =
     \<lparr>dim_players = [smith_a, smith_b, murray],
      dim_tournaments = [wimbledon],
      fact_matches =
        Table [with_partition 2010 6 (match_row 12 3 12 8 14780 ''1st Round'' ''6-3 6-3 6-3'')],
      fact_plus =
        map enriched_row
          [((((with_partition 2010 6 (match_row 12 3 12 8 14780 ''1st Round'' ''6-3 6-3 6-3''),
               Some smith_b), Some murray), Some smith_b), Some wimbledon)]\<rparr>"

text \<open>Two players of one name, who have played each other once.\<close>

definition storage_same_name :: storage where
  "storage_same_name =
     \<lparr>dim_players_parquet = Some [smith_a, smith_b],
      dim_tournaments_parquet = Some [wimbledon],
      fact_matches_dir =
        Some [partition_dir ''year=2010'' ''month=06''
                [match_row 11 12 11 8 14782 ''2nd Round'' ''7-6 7-6 7-6'']]\<rparr>"

definition snap_same_name :: snapshot where
  "snap_same_name =
     \<lparr>dim_players = [smith_a, smith_b],
      dim_tournaments = [wimbledon],
      fact_matches =
        Table [with_partition 2010 6 (match_row 11 12 11 8 14782 ''2nd Round'' ''7-6 7-6 7-6'')],
      fact_plus =
        map enriched_row
          [((((with_partition 2010 6 (match_row 11 12 11 8 14782 ''2nd Round'' ''7-6 7-6 7-6''),
               Some smith_a), Some smith_b), Some smith_a), Some wimbledon)]\<rparr>"

text \<open>Two tournaments whose names share a word, and whose finals were played on one day.\<close>

definition qatar_final :: raw_match where
  "qatar_final = match_row 3 1 3 21 14252 ''The Final'' ''6-4 6-2''"

definition chennai_final :: raw_match where
  "chennai_final = match_row 2 4 2 22 14252 ''The Final'' ''6-3 7-6''"

definition storage_opens :: storage where
  "storage_opens =
     \<lparr>dim_players_parquet = Some [nadal, federer, murray, nameless],
      dim_tournaments_parquet = Some [qatar_open, chennai_open],
      fact_matches_dir =
        Some [partition_dir ''year=2009'' ''month=01'' [qatar_final, chennai_final]]\<rparr>"

definition snap_opens :: snapshot where
  "snap_opens =
     \<lparr>dim_players = [nadal, federer, murray, nameless],
      dim_tournaments = [qatar_open, chennai_open],
      fact_matches =
        Table [with_partition 2009 1 qatar_final, with_partition 2009 1 chennai_final],
      fact_plus =
        map enriched_row
          [((((with_partition 2009 1 qatar_final, Some murray), Some nadal), Some murray),
            Some qatar_open),
           ((((with_partition 2009 1 chennai_final, Some federer), Some nameless),
             Some federer), Some chennai_open)]\<rparr>"

section \<open>Properties\<close>

subsection \<open>Left merges\<close>

lemma filter_key_distinct:
  "distinct (map rk right) \<Longrightarrow> length (filter (\<lambda>r. rk r = k) right) \<le> 1"
proof (induction right)
  case Nil then show ?case by simp
next
  case (Cons r rs)
  then show ?case by (auto simp: filter_empty_conv image_iff)
qed

lemma merge_left_fst:
  assumes "distinct (map rk right)"
  shows "map fst (merge_left lk rk left right) = left"
proof (induction left)
  case Nil show ?case by (simp add: merge_left_def)
next
  case (Cons l ls)
  have "length (filter (\<lambda>r. rk r = lk l) right) \<le> 1"
    using assms by (rule filter_key_distinct)
  then obtain "filter (\<lambda>r. rk r = lk l) right = [] \<or> (\<exists>r. filter (\<lambda>r. rk r = lk l) right = [r])"
    by (cases "filter (\<lambda>r. rk r = lk l) right") (auto simp: length_Suc_conv)
  then have "map fst (case filter (\<lambda>r. rk r = lk l) right of
                        [] \<Rightarrow> [(l, None)]
                      | rs \<Rightarrow> map (\<lambda>r. (l, Some r)) rs) = [l]"
    by (auto split: list.splits)
  with Cons show ?case by (simp add: merge_left_def)
qed

lemma merge_left_member:
  "(l, r) \<in> set (merge_left lk rk left right) \<longleftrightarrow>
     l \<in> set left \<and> joined rk right (lk l) r"
proof -
  have one: "(l, r) \<in> set (case filter (\<lambda>r. rk r = lk l') right of
                        [] \<Rightarrow> [(l', None)]
                      | rs \<Rightarrow> map (\<lambda>r. (l', Some r)) rs) \<longleftrightarrow>
     l = l' \<and> joined rk right (lk l) r" for l'
  proof (cases "filter (\<lambda>r. rk r = lk l') right")
    case Nil
    then have "\<forall>x \<in> set right. rk x \<noteq> lk l'" by (simp add: filter_empty_conv)
    with Nil show ?thesis by (auto simp: joined_def list_all_iff split: option.splits)
  next
    case (Cons y ys)
    then have "set (filter (\<lambda>r. rk r = lk l') right) = set (y # ys)" by simp
    then have in_iff: "\<And>x. x \<in> set (y # ys) \<longleftrightarrow> x \<in> set right \<and> rk x = lk l'"
      by auto
    have "y \<in> set right \<and> rk y = lk l'" using in_iff[of y] by simp
    then show ?thesis using Cons in_iff by (auto simp: joined_def list_all_iff split: option.splits)
  qed
  show ?thesis unfolding merge_left_def by (auto simp: one)
qed

lemma enrich_rows:
  assumes "enrich dp dt (Table rows) = Inr fp" and "m \<in> set fp"
  shows "\<exists>f a b w t. m = enriched_row ((((f, a), b), w), t) \<and> f \<in> set rows \<and>
           joined player_id dp (p1_id f) a \<and> joined player_id dp (p2_id f) b \<and>
           joined player_id dp (winner_id f) w \<and> joined dim_tournament_id dt (tournament_id f) t"
proof -
  from assms obtain j where j: "m = enriched_row j"
    "j \<in> set (merge_left (\<lambda>j. tournament_id (fst (fst (fst j)))) dim_tournament_id
                    (merge_left (\<lambda>j. winner_id (fst (fst j))) player_id
                       (merge_left (\<lambda>j. p2_id (fst j)) player_id
                          (merge_left p1_id player_id rows dp) dp) dp) dt)"
    by (auto simp: enrich_def)
  obtain f a b w t where jj: "j = ((((f, a), b), w), t)"
    by (metis surj_pair)
  from j(2) have "f \<in> set rows \<and>
           joined player_id dp (p1_id f) a \<and> joined player_id dp (p2_id f) b \<and>
           joined player_id dp (winner_id f) w \<and> joined dim_tournament_id dt (tournament_id f) t"
    unfolding jj merge_left_member by simp
  with j(1) jj show ?thesis by blast
qed

lemma joined_name_Some:
  assumes "joined player_id dp k a" and "Option.bind a player_name = Some nm"
  shows "\<exists>q \<in> set dp. player_id q = k \<and> player_name q = Some nm"
  using assms by (cases a) (auto simp: joined_def)

lemma joined_name_distinct:
  assumes "joined player_id dp k a" and "distinct (map player_id dp)"
    and "q \<in> set dp" and "player_id q = k"
  shows "Option.bind a player_name = player_name q"
proof (cases a)
  case None
  with assms show ?thesis by (auto simp: joined_def list_all_iff)
next
  case (Some x)
  with assms(1) have "x \<in> set dp" "player_id x = k" by (auto simp: joined_def)
  with assms(2-4) have "x = q" by (metis distinct_map inj_onD)
  with Some show ?thesis by simp
qed

lemma enriched_row_sel:
  "p1_id (enriched_row ((((f, a), b), w), t)) = p1_id f"
  "p2_id (enriched_row ((((f, a), b), w), t)) = p2_id f"
  "winner_id (enriched_row ((((f, a), b), w), t)) = winner_id f"
  "p1_name (enriched_row ((((f, a), b), w), t)) = Option.bind a player_name"
  "p2_name (enriched_row ((((f, a), b), w), t)) = Option.bind b player_name"
  "winner_name (enriched_row ((((f, a), b), w), t)) = Option.bind w player_name"
  by (simp_all add: enriched_row_def)

text \<open>
  In a row of the enriched table the name on a side is the name of the player of that
  side's identifier: the rows with a given name on a side are the rows of all the
  players of that name.
\<close>

lemma enrich_name_bearers:
  assumes "enrich dp dt fm = Inr fp" and "m \<in> set fp" and "distinct (map player_id dp)"
  shows "col_eq (p1_name m) (Some nm) \<longleftrightarrow>
           (\<exists>q \<in> set dp. player_id q = p1_id m \<and> player_name q = Some nm)"
    and "col_eq (p2_name m) (Some nm) \<longleftrightarrow>
           (\<exists>q \<in> set dp. player_id q = p2_id m \<and> player_name q = Some nm)"
proof -
  from assms(1) obtain rows where fm: "fm = Table rows"
    by (cases fm) (auto simp: enrich_def)
  from enrich_rows[OF assms(1)[unfolded fm] assms(2)]
  obtain f a b w t where m: "m = enriched_row ((((f, a), b), w), t)"
    and a: "joined player_id dp (p1_id f) a" and b: "joined player_id dp (p2_id f) b"
    by blast
  show "col_eq (p1_name m) (Some nm) \<longleftrightarrow>
           (\<exists>q \<in> set dp. player_id q = p1_id m \<and> player_name q = Some nm)"
    using joined_name_Some[OF a, of nm] joined_name_distinct[OF a assms(3)]
    by (auto simp: col_eq_def m enriched_row_sel)
  show "col_eq (p2_name m) (Some nm) \<longleftrightarrow>
           (\<exists>q \<in> set dp. player_id q = p2_id m \<and> player_name q = Some nm)"
    using joined_name_Some[OF b, of nm] joined_name_distinct[OF b assms(3)]
    by (auto simp: col_eq_def m enriched_row_sel)
qed

text \<open>When one player alone has the name, they are the rows of that player.\<close>

lemma enrich_p1_name_iff:
  assumes "enrich dp dt fm = Inr fp" and "m \<in> set fp"
    and "distinct (map player_id dp)" and "p \<in> set dp" and "player_name p = Some nm"
    and "\<forall>q \<in> set dp. player_name q = player_name p \<longrightarrow> q = p"
  shows "col_eq (p1_name m) (player_name p) \<longleftrightarrow> p1_id m = player_id p"
    and "col_eq (p2_name m) (player_name p) \<longleftrightarrow> p2_id m = player_id p"
proof -
  from assms(1) obtain rows where fm: "fm = Table rows"
    by (cases fm) (auto simp: enrich_def)
  from enrich_rows[OF assms(1)[unfolded fm] assms(2)]
  obtain f a b w t where m: "m = enriched_row ((((f, a), b), w), t)"
    and a: "joined player_id dp (p1_id f) a" and b: "joined player_id dp (p2_id f) b"
    by blast
  show "col_eq (p1_name m) (player_name p) \<longleftrightarrow> p1_id m = player_id p"
  proof
    assume "col_eq (p1_name m) (player_name p)"
    then have "Option.bind a player_name = Some nm"
      using assms(5) by (simp add: col_eq_def m enriched_row_sel)
    from joined_name_Some[OF a this] obtain q where
      "q \<in> set dp" "player_id q = p1_id f" "player_name q = Some nm" by blast
    with assms(5,6) have "q = p" by simp
    with \<open>player_id q = p1_id f\<close> show "p1_id m = player_id p"
      by (simp add: m enriched_row_sel)
  next
    assume "p1_id m = player_id p"
    then have "player_id p = p1_id f" by (simp add: m enriched_row_sel)
    from joined_name_distinct[OF a assms(3,4) this]
    show "col_eq (p1_name m) (player_name p)"
      using assms(5) by (simp add: col_eq_def m enriched_row_sel)
  qed
  show "col_eq (p2_name m) (player_name p) \<longleftrightarrow> p2_id m = player_id p"
  proof
    assume "col_eq (p2_name m) (player_name p)"
    then have "Option.bind b player_name = Some nm"
      using assms(5) by (simp add: col_eq_def m enriched_row_sel)
    from joined_name_Some[OF b this] obtain q where
      "q \<in> set dp" "player_id q = p2_id f" "player_name q = Some nm" by blast
    with assms(5,6) have "q = p" by simp
    with \<open>player_id q = p2_id f\<close> show "p2_id m = player_id p"
      by (simp add: m enriched_row_sel)
  next
    assume "p2_id m = player_id p"
    then have "player_id p = p2_id f" by (simp add: m enriched_row_sel)
    from joined_name_distinct[OF b assms(3,4) this]
    show "col_eq (p2_name m) (player_name p)"
      using assms(5) by (simp add: col_eq_def m enriched_row_sel)
  qed
qed

subsection \<open>Loading\<close>

lemma enrich_fact_columns:
  assumes "distinct (map player_id dp)" and "distinct (map dim_tournament_id dt)"
    and "enrich dp dt fm = Inr fp"
  shows "fm = Table (map fact_columns fp)"
proof (cases fm)
  case NoColumns
  with assms(3) show ?thesis by (simp add: enrich_def)
next
  case (Table rows)
  have "fact_columns (enriched_row j) = fst (fst (fst (fst j)))" for j
    by (cases j) (auto simp: fact_columns_def enriched_row_def)
  then have "map fact_columns fp =
      map (fst \<circ> fst \<circ> fst \<circ> fst)
        (merge_left (\<lambda>j. tournament_id (fst (fst (fst j)))) dim_tournament_id
           (merge_left (\<lambda>j. winner_id (fst (fst j))) player_id
              (merge_left (\<lambda>j. p2_id (fst j)) player_id
                 (merge_left p1_id player_id rows dp) dp) dp) dt)"
    using assms(3) Table by (auto simp: enrich_def)
  also have "\<dots> = rows"
    using assms(1,2) by (simp add: merge_left_fst flip: map_map)
  finally show ?thesis using Table by simp
qed

lemma load_data_enrich:
  assumes "load_data lib st = Inr snap"
  shows "enrich (dim_players snap) (dim_tournaments snap) (fact_matches snap) = Inr (fact_plus snap)"
  using assms
  by (auto simp: load_data_def Let_def split: option.splits sum.splits)

lemma load_data_parts:
  assumes "load_data lib st = Inr snap"
  shows "\<exists>parts. read_fact_parts lib (fact_matches_dir st) = Inr parts \<and>
           fact_matches snap = concat_parts parts \<and>
           dim_players_parquet st = Some (dim_players snap) \<and>
           dim_tournaments_parquet st = Some (dim_tournaments snap)"
  using assms
  by (auto simp: load_data_def Let_def split: option.splits sum.splits)

text \<open>
  C1. Enrichment preserves the row count. When \<open>load_data\<close> succeeds and the
  identifiers of each dimension table are unique, \<open>fact_plus\<close> has exactly as many rows
  as \<open>fact_matches\<close>; more, the fact columns of \<open>fact_plus\<close> are the rows of
  \<open>fact_matches\<close>, in order, whichever lookups miss.
\<close>

theorem load_data_keeps_every_fact_row:
  assumes "load_data lib st = Inr snap"
    and "distinct (map player_id (dim_players snap))"
    and "distinct (map dim_tournament_id (dim_tournaments snap))"
  shows "length (fact_plus snap) = frame_len (fact_matches snap) \<and>
         fact_matches snap = Table (map fact_columns (fact_plus snap))"
proof -
  have "fact_matches snap = Table (map fact_columns (fact_plus snap))"
    using enrich_fact_columns[OF assms(2,3) load_data_enrich[OF assms(1)]] .
  moreover from this have "frame_len (fact_matches snap) = length (fact_plus snap)"
    by (metis frame_len.simps(2) length_map)
  ultimately show ?thesis by simp
qed

theorem load_data_keeps_every_fact_row_witness:
  "load_data lib_ex storage_ex = Inr snap_ex \<and>
   distinct (map player_id (dim_players snap_ex)) \<and>
   distinct (map dim_tournament_id (dim_tournaments snap_ex)) \<and>
   length (fact_plus snap_ex) = frame_len (fact_matches snap_ex) \<and>
   fact_matches snap_ex = Table (map fact_columns (fact_plus snap_ex))"
proof -
  have h1: "load_data lib_ex storage_ex = Inr snap_ex"
    by code_simp
  have h2: "distinct (map player_id (dim_players snap_ex))"
    by code_simp
  have h3: "distinct (map dim_tournament_id (dim_tournaments snap_ex))"
    by code_simp
  from load_data_keeps_every_fact_row [OF h1 h2 h3] h1 h2 h3 show ?thesis
    by blast
qed

lemma load_data_without_parts:
  assumes "read_fact_parts lib (fact_matches_dir st) = Inr []"
    and "dim_players_parquet st = Some dp" and "dim_tournaments_parquet st = Some dt"
  shows "load_data lib st = Inl (KeyError ''p1_id'')"
  using assms by (simp add: load_data_def concat_parts_def enrich_def)

lemma read_months_no_data:
  assumes "\<forall>m \<in> set ms. \<not> month_is_dir m \<or> data_parquet m = None"
  shows "read_months lib yname ms = Inr []"
  using assms by (induction ms) (auto simp: read_month_def)

lemma read_years_no_data:
  assumes "\<forall>y \<in> set ys. \<forall>m \<in> set (year_iterdir y). year_is_dir y \<longrightarrow> \<not> month_is_dir m \<or> data_parquet m = None"
  shows "read_years lib ys = Inr []"
  using assms
proof (induction ys)
  case Nil then show ?case by simp
next
  case (Cons y ys)
  then have "read_years lib ys = Inr []" by simp
  moreover have "(if year_is_dir y then read_months lib (year_name y) (year_iterdir y) else Inr []) = Inr []"
    using Cons.prems by (auto intro!: read_months_no_data)
  ultimately show ?case by simp
qed

lemma load_data_nothing_found:
  assumes "dim_players_parquet st = Some dp" and "dim_tournaments_parquet st = Some dt"
    and "fact_matches_dir st = Some ys"
    and "\<forall>y \<in> set ys. \<forall>m \<in> set (year_iterdir y).
           year_is_dir y \<longrightarrow> \<not> month_is_dir m \<or> data_parquet m = None"
  shows "load_data lib st = Inl (KeyError ''p1_id'')"
proof -
  have "read_fact_parts lib (fact_matches_dir st) = Inr []"
    using read_years_no_data[OF assms(4), of lib] assms(3) by (simp add: read_fact_parts_def)
  from load_data_without_parts[OF this assms(1,2)] show ?thesis .
qed

text \<open>
  C4. Loading with an empty partition set. With both dimension files and no
  \<^verbatim>\<open>fact_matches\<close> directory, \<open>fact_parts\<close> is empty, \<open>fact_matches\<close> is
  \<^verbatim>\<open>pd.DataFrame()\<close>, and the first merge raises \<^verbatim>\<open>KeyError: 'p1_id'\<close>: the
  load crashes and leaves no snapshot. (By \<open>load_data_nothing_found\<close> the same holds
  when the directory exists and no \<^verbatim>\<open>data.parquet\<close> is found under it.)
\<close>

theorem load_data_no_partition_raises:
  "load_data lib \<lparr>dim_players_parquet = Some dp, dim_tournaments_parquet = Some dt,
                  fact_matches_dir = None\<rparr> = Inl (KeyError ''p1_id'')"
  by (simp add: load_data_def read_fact_parts_def concat_parts_def enrich_def)

subsection \<open>The matches \<open>player_stats\<close> collects\<close>

lemma player_candidates_Cons:
  assumes "player_candidates lib dp q = Some (p # rest)"
  shows "p \<in> set dp" and "\<exists>nm. player_name p = Some nm"
proof -
  from assms obtain contains where c: "str_contains lib q = Some contains"
    and f: "filter (\<lambda>p. contains (player_name p)) dp = p # rest"
    by (auto simp: player_candidates_def split: option.splits)
  from f have "p \<in> set (filter (\<lambda>p. contains (player_name p)) dp)" by simp
  then have p: "p \<in> set dp" "contains (player_name p)" by auto
  from p(1) show "p \<in> set dp" .
  from c p(2) show "\<exists>nm. player_name p = Some nm"
    by (cases "player_name p") (auto simp: str_contains_def split: option.splits)
qed

lemma player_stats_resolved:
  assumes "player_candidates lib (dim_players snap) (replace_pct20 name) = Some (p # rest)"
  shows "player_stats lib snap now name =
     (let ms = all_matches (fact_plus snap) (player_name p) in
      if ms = [] then Inl (NotFound ''No matches found for player'')
      else Inr \<lparr>generated_at = now, player = player_name p,
                career = \<lparr>matches = int (length ms), wins = is_win_sum ms,
                          losses = int (length ms) - is_win_sum ms,
                          win_rate = rate lib (is_win_sum ms) (int (length ms))\<rparr>,
                by_surface = surface_stats lib ms\<rparr>)"
  using assms by (simp add: player_stats_def Let_def)

lemma all_matches_by_id:
  assumes "enrich dp dt fm = Inr fp" and "distinct (map player_id dp)"
    and "p \<in> set dp" and "player_name p = Some nm" and "sole_bearer dp p"
  shows "all_matches fp (player_name p) = matches_of_player (player_id p) fp"
proof -
  have uniq: "\<forall>q \<in> set dp. player_name q = player_name p \<longrightarrow> q = p"
  proof (intro ballI impI)
    fix q assume "q \<in> set dp" "player_name q = player_name p"
    then have "q \<in> set (filter (\<lambda>q. player_name q = player_name p) dp)" by simp
    with assms(5) show "q = p" by (simp add: sole_bearer_def)
  qed
  have 1: "filter (\<lambda>m. col_eq (p1_name m) (player_name p)) fp = filter (plays_p1 (player_id p)) fp"
    by (rule filter_cong[OF refl])
       (simp add: plays_p1_def enrich_p1_name_iff(1)[OF assms(1) _ assms(2,3,4) uniq])
  have 2: "filter (\<lambda>m. col_eq (p2_name m) (player_name p)) fp = filter (plays_p2 (player_id p)) fp"
    by (rule filter_cong[OF refl])
       (simp add: plays_p2_def enrich_p1_name_iff(2)[OF assms(1) _ assms(2,3,4) uniq])
  have 3: "map (\<lambda>m. (m, winner_id m = p1_id m)) (filter (plays_p1 (player_id p)) fp)
         = map (won_by (player_id p)) (filter (plays_p1 (player_id p)) fp)"
    by (rule map_cong[OF refl]) (simp add: plays_p1_def won_by_def)
  have 4: "map (\<lambda>m. (m, winner_id m = p2_id m)) (filter (plays_p2 (player_id p)) fp)
         = map (won_by (player_id p)) (filter (plays_p2 (player_id p)) fp)"
    by (rule map_cong[OF refl]) (simp add: plays_p2_def won_by_def)
  show ?thesis
    by (simp add: all_matches_def p1_matches_def p2_matches_def matches_of_player_def 1 2 3 4)
qed

lemma set_matches_of_player:
  "fst ` set (matches_of_player pid fp) = {m \<in> set fp. plays pid m}"
proof -
  have "fst ` set (matches_of_player pid fp) =
          set (filter (plays_p1 pid) fp) \<union> set (filter (plays_p2 pid) fp)"
    unfolding matches_of_player_def
    by (simp add: image_Un image_image won_by_def)
  then show ?thesis by (auto simp: plays_def)
qed

text \<open>
  C2, as amended. \<open>player_stats\<close> collects the rows whose \<open>p1_name\<close>, then those whose
  \<open>p2_name\<close>, is the name of the first candidate. When the snapshot comes from
  \<open>load_data\<close>, the player identifiers are unique and no other player has the resolved
  player's name, these are exactly the rows where the resolved player's identifier is
  \<open>p1_id\<close> or \<open>p2_id\<close>, each a win if and only if \<open>winner_id\<close> is that identifier;
  the career counts of a successful answer are taken over them.
\<close>

theorem player_stats_collects_by_id:
  assumes "load_data lib st = Inr snap"
    and "distinct (map player_id (dim_players snap))"
    and "player_candidates lib (dim_players snap) (replace_pct20 name) = Some (p # rest)"
    and "sole_bearer (dim_players snap) p"
  shows "all_matches (fact_plus snap) (player_name p) =
           matches_of_player (player_id p) (fact_plus snap) \<and>
         fst ` set (all_matches (fact_plus snap) (player_name p)) =
           {m \<in> set (fact_plus snap). plays (player_id p) m} \<and>
         (player_stats lib snap now name = Inr r \<longrightarrow>
            player r = player_name p \<and>
            matches (career r) = int (length (matches_of_player (player_id p) (fact_plus snap))) \<and>
            wins (career r) = is_win_sum (matches_of_player (player_id p) (fact_plus snap)))"
proof -
  from player_candidates_Cons[OF assms(3)] obtain nm where
    p: "p \<in> set (dim_players snap)" "player_name p = Some nm" by blast
  have eq: "all_matches (fact_plus snap) (player_name p) =
              matches_of_player (player_id p) (fact_plus snap)"
    using all_matches_by_id[OF load_data_enrich[OF assms(1)] assms(2) p assms(4)] .
  have "player_stats lib snap now name = Inr r \<Longrightarrow>
            player r = player_name p \<and>
            matches (career r) = int (length (all_matches (fact_plus snap) (player_name p))) \<and>
            wins (career r) = is_win_sum (all_matches (fact_plus snap) (player_name p))"
    unfolding player_stats_resolved[OF assms(3)] by (auto simp: Let_def split: if_splits)
  with eq show ?thesis
    by (simp add: set_matches_of_player)
qed

theorem player_stats_collects_by_id_witness:
  "load_data lib_ex storage_ex = Inr snap_ex \<and>
   distinct (map player_id (dim_players snap_ex)) \<and>
   player_candidates lib_ex (dim_players snap_ex) (replace_pct20 ''rafael%20n'') = Some [nadal] \<and>
   sole_bearer (dim_players snap_ex) nadal \<and>
   all_matches (fact_plus snap_ex) (player_name nadal) =
     matches_of_player (player_id nadal) (fact_plus snap_ex) \<and>
   length (matches_of_player (player_id nadal) (fact_plus snap_ex)) = 3 \<and>
   map_sum id (\<lambda>r. (player r, matches (career r), wins (career r)))
     (player_stats lib_ex snap_ex ''t'' ''rafael%20n'') = Inr (Some ''Rafael Nadal'', 3, 3)"
proof -
  have h6: "map_sum id (\<lambda>r. (player r, matches (career r), wins (career r)))
     (player_stats lib_ex snap_ex ''t'' ''rafael%20n'') = Inr (Some ''Rafael Nadal'', 3, 3)"
    by code_simp
  have h1: "load_data lib_ex storage_ex = Inr snap_ex"
    by code_simp
  have h2: "distinct (map player_id (dim_players snap_ex))"
    by code_simp
  have h3: "player_candidates lib_ex (dim_players snap_ex) (replace_pct20 ''rafael%20n'') = Some [nadal]"
    by code_simp
  have h4: "sole_bearer (dim_players snap_ex) nadal"
    by code_simp
  have h5: "length (matches_of_player (player_id nadal) (fact_plus snap_ex)) = 3"
    by code_simp
  from player_stats_collects_by_id [OF h1 h2 h3 h4] h1 h2 h3 h4 h5 h6 show ?thesis
    by blast
qed

text \<open>
  C2, as stated, fails when a name is duplicated: ``smith'' resolves to the first John
  Smith, who appears in no row, and the match of the second John Smith is collected
  and counted.
\<close>

theorem player_stats_counts_namesake:
  "load_data lib_ex storage_namesakes = Inr snap_namesakes \<and>
   player_candidates lib_ex (dim_players snap_namesakes) (replace_pct20 ''smith'') =
     Some [smith_a, smith_b] \<and>
   filter (plays (player_id smith_a)) (fact_plus snap_namesakes) = [] \<and>
   map (p1_id \<circ> fst) (all_matches (fact_plus snap_namesakes) (player_name smith_a)) =
     [player_id smith_b] \<and>
   all_matches (fact_plus snap_namesakes) (player_name smith_a) \<noteq>
     matches_of_player (player_id smith_a) (fact_plus snap_namesakes) \<and>
   map_sum id career (player_stats lib_ex snap_namesakes ''t'' ''smith'') =
     Inr \<lparr>matches = 1, wins = 1, losses = 0, win_rate = RoundN (Mul (Div 1 1) 100) 1\<rparr>"
  by code_simp

subsection \<open>The career record\<close>

lemma is_win_sum_bounds: "0 \<le> is_win_sum ms" "is_win_sum ms \<le> int (length ms)"
  by (simp_all add: is_win_sum_def)

text \<open>
  C3. Career arithmetic. When the name resolves and at least one match is collected,
  \<open>player_stats\<close> answers with a career record whose count is the number of collected
  matches, with \<open>wins + losses = matches\<close>, and whose \<open>win_rate\<close> is
  \<^verbatim>\<open>round(wins / total_matches * 100, 1)\<close> as the library computes it; the count is
  positive, so the division is defined.
\<close>

theorem player_stats_career_arithmetic:
  assumes "player_candidates lib (dim_players snap) (replace_pct20 name) = Some (p # rest)"
    and "all_matches (fact_plus snap) (player_name p) \<noteq> []"
  shows "\<exists>r. player_stats lib snap now name = Inr r \<and>
           matches (career r) = int (length (all_matches (fact_plus snap) (player_name p))) \<and>
           wins (career r) = is_win_sum (all_matches (fact_plus snap) (player_name p)) \<and>
           wins (career r) + losses (career r) = matches (career r) \<and>
           win_rate (career r) =
             round_nd lib (float_mul lib (true_div lib (wins (career r)) (matches (career r))) 100) 1 \<and>
           0 < matches (career r) \<and> 0 \<le> wins (career r) \<and> 0 \<le> losses (career r)"
  using assms(2) is_win_sum_bounds[of "all_matches (fact_plus snap) (player_name p)"]
  unfolding player_stats_resolved[OF assms(1)]
  by (simp add: Let_def rate_def)

theorem player_stats_career_arithmetic_witness:
  "player_candidates lib_ex (dim_players snap_ex) (replace_pct20 ''fed'') = Some [federer] \<and>
   all_matches (fact_plus snap_ex) (player_name federer) \<noteq> [] \<and>
   map_sum id career (player_stats lib_ex snap_ex ''t'' ''fed'') =
     Inr \<lparr>matches = 2, wins = 0, losses = 2, win_rate = RoundN (Mul (Div 0 2) 100) 1\<rparr>"
proof -
  have h1: "player_candidates lib_ex (dim_players snap_ex) (replace_pct20 ''fed'') = Some [federer]"
    by code_simp
  have h2: "all_matches (fact_plus snap_ex) (player_name federer) \<noteq> []"
    by code_simp
  have h3: "map_sum id career (player_stats lib_ex snap_ex ''t'' ''fed'') =
     Inr \<lparr>matches = 2, wins = 0, losses = 2, win_rate = RoundN (Mul (Div 0 2) 100) 1\<rparr>"
    by code_simp
  from player_stats_career_arithmetic [OF h1 h2, of "''t''"] h1 h2 h3 show ?thesis
    by blast
qed

subsection \<open>The surface breakdown\<close>

lemma player_stats_Inr:
  assumes "player_stats lib snap now name = Inr r"
  shows "\<exists>p rest. player_candidates lib (dim_players snap) (replace_pct20 name) = Some (p # rest) \<and>
           all_matches (fact_plus snap) (player_name p) \<noteq> [] \<and>
           player r = player_name p \<and>
           by_surface r = surface_stats lib (all_matches (fact_plus snap) (player_name p))"
proof (cases "player_candidates lib (dim_players snap) (replace_pct20 name)")
  case None
  with assms show ?thesis by (simp add: player_stats_def Let_def)
next
  case (Some ps)
  show ?thesis
  proof (cases ps)
    case Nil
    with Some assms show ?thesis by (simp add: player_stats_def Let_def)
  next
    case (Cons p rest)
    with Some have c: "player_candidates lib (dim_players snap) (replace_pct20 name) = Some (p # rest)"
      by simp
    from assms show ?thesis
      unfolding player_stats_resolved[OF c] using c
      by (auto simp: Let_def split: if_splits)
  qed
qed

lemma lower_surfaces:
  "lower ''Hard'' = ''hard''" "lower ''Clay'' = ''clay''" "lower ''Grass'' = ''grass''"
  by code_simp+

lemma surface_stats_entries:
  "surface_stats lib ms =
     surface_entry lib ms ''Hard'' @ surface_entry lib ms ''Clay'' @ surface_entry lib ms ''Grass''"
  by (simp add: surface_stats_def surface_step_def surface_entry_def Let_def lower_surfaces)

lemma on_surface_nonempty:
  "on_surface sf ms \<noteq> [] \<longleftrightarrow> (\<exists>e \<in> set ms. Surface (fst e) = Some sf)"
  by (auto simp: on_surface_def filter_empty_conv col_eq_def)

text \<open>
  C6. Surface breakdown. In a successful answer the keys of \<open>by_surface\<close> are among
  \<^verbatim>\<open>hard\<close>, \<^verbatim>\<open>clay\<close>, \<^verbatim>\<open>grass\<close> (the lower-cased surfaces of the fixed
  set), each at most once; a surface is a key if and only if a collected match has
  that surface; and no entry has zero matches.
\<close>

theorem player_stats_by_surface:
  assumes "player_stats lib snap now name = Inr r"
  shows "fst ` set (by_surface r) \<subseteq> {''hard'', ''clay'', ''grass''} \<and>
         distinct (map fst (by_surface r)) \<and>
         ((''hard'' \<in> fst ` set (by_surface r)) =
            (\<exists>e \<in> set (all_matches (fact_plus snap) (player r)). Surface (fst e) = Some ''Hard'')) \<and>
         ((''clay'' \<in> fst ` set (by_surface r)) =
            (\<exists>e \<in> set (all_matches (fact_plus snap) (player r)). Surface (fst e) = Some ''Clay'')) \<and>
         ((''grass'' \<in> fst ` set (by_surface r)) =
            (\<exists>e \<in> set (all_matches (fact_plus snap) (player r)). Surface (fst e) = Some ''Grass'')) \<and>
         list_all (\<lambda>e. 0 < matches (snd e)) (by_surface r) \<and>
         by_surface r =
           surface_entry lib (all_matches (fact_plus snap) (player r)) ''Hard'' @
           surface_entry lib (all_matches (fact_plus snap) (player r)) ''Clay'' @
           surface_entry lib (all_matches (fact_plus snap) (player r)) ''Grass''"
proof -
  define ms where "ms = all_matches (fact_plus snap) (player r)"
  from player_stats_Inr[OF assms] have bs: "by_surface r = surface_stats lib ms"
    unfolding ms_def by auto
  have e: "by_surface r =
      surface_entry lib ms ''Hard'' @ surface_entry lib ms ''Clay'' @ surface_entry lib ms ''Grass''"
    unfolding bs by (rule surface_stats_entries)
  have keys: "map fst (by_surface r) =
      (if on_surface ''Hard'' ms = [] then [] else [''hard'']) @
      (if on_surface ''Clay'' ms = [] then [] else [''clay'']) @
      (if on_surface ''Grass'' ms = [] then [] else [''grass''])"
    unfolding e by (simp add: surface_entry_def lower_surfaces)
  have 1: "fst ` set (by_surface r) \<subseteq> {''hard'', ''clay'', ''grass''}"
    unfolding set_map[symmetric] keys by auto
  have 2: "distinct (map fst (by_surface r))"
    unfolding keys by simp
  have 3: "(''hard'' \<in> fst ` set (by_surface r)) = (\<exists>e \<in> set ms. Surface (fst e) = Some ''Hard'')"
    unfolding set_map[symmetric] keys on_surface_nonempty[symmetric] by simp
  have 4: "(''clay'' \<in> fst ` set (by_surface r)) = (\<exists>e \<in> set ms. Surface (fst e) = Some ''Clay'')"
    unfolding set_map[symmetric] keys on_surface_nonempty[symmetric] by simp
  have 5: "(''grass'' \<in> fst ` set (by_surface r)) = (\<exists>e \<in> set ms. Surface (fst e) = Some ''Grass'')"
    unfolding set_map[symmetric] keys on_surface_nonempty[symmetric] by simp
  have 6: "list_all (\<lambda>e. 0 < matches (snd e)) (by_surface r)"
    unfolding e by (simp add: surface_entry_def)
  from 1 2 3 4 5 6 e show ?thesis unfolding ms_def by blast
qed

theorem player_stats_by_surface_witness:
  "map_sum id by_surface (player_stats lib_ex snap_ex ''t'' ''nadal'') =
     Inr [(''clay'', \<lparr>matches = 1, wins = 1, losses = 0, win_rate = RoundN (Mul (Div 1 1) 100) 1\<rparr>),
          (''grass'', \<lparr>matches = 1, wins = 1, losses = 0, win_rate = RoundN (Mul (Div 1 1) 100) 1\<rparr>)] \<and>
   map (Surface \<circ> fst) (all_matches (fact_plus snap_ex) (Some ''Rafael Nadal'')) =
     [Some ''Clay'', None, Some ''Grass'']"
proof -
  obtain r where r: "player_stats lib_ex snap_ex ''t'' ''nadal'' = Inr r"
    by (cases "player_stats lib_ex snap_ex ''t'' ''nadal''") (simp_all, code_simp)
  have h1: "map_sum id by_surface (player_stats lib_ex snap_ex ''t'' ''nadal'') =
     Inr [(''clay'', \<lparr>matches = 1, wins = 1, losses = 0, win_rate = RoundN (Mul (Div 1 1) 100) 1\<rparr>),
          (''grass'', \<lparr>matches = 1, wins = 1, losses = 0, win_rate = RoundN (Mul (Div 1 1) 100) 1\<rparr>)]"
    by code_simp
  have h2: "map (Surface \<circ> fst) (all_matches (fact_plus snap_ex) (Some ''Rafael Nadal'')) =
     [Some ''Clay'', None, Some ''Grass'']"
    by code_simp
  from player_stats_by_surface [OF r] h1 h2 show ?thesis
    by blast
qed

subsection \<open>The two 404 answers of \<open>player_stats\<close>\<close>

lemma player_stats_no_candidate:
  assumes "player_candidates lib (dim_players snap) (replace_pct20 name) = Some []"
  shows "player_stats lib snap now name =
           Inl (NotFound (''Player '' @ [CHR 0x27] @ replace_pct20 name @ [CHR 0x27] @ '' not found''))"
  using assms by (simp add: player_stats_def Let_def)

text \<open>
  C10, as amended. \<open>player_stats\<close> answers 404 when no player matches the name, and
  also when the first matching player has no collected match; the two answers differ
  in their message, \<^verbatim>\<open>Player '<name>' not found\<close> against
  \<^verbatim>\<open>No matches found for player\<close>, whatever the name.
\<close>

theorem player_stats_not_found_twice:
  "(player_candidates lib (dim_players snap) (replace_pct20 name) = Some [] \<longrightarrow>
      player_stats lib snap now name =
        Inl (NotFound (''Player '' @ [CHR 0x27] @ replace_pct20 name @ [CHR 0x27] @ '' not found''))) \<and>
   (player_candidates lib (dim_players snap) (replace_pct20 name) = Some (p # rest) \<and>
    all_matches (fact_plus snap) (player_name p) = [] \<longrightarrow>
      player_stats lib snap now name = Inl (NotFound ''No matches found for player'')) \<and>
   ''Player '' @ [CHR 0x27] @ replace_pct20 name @ [CHR 0x27] @ '' not found''
     \<noteq> ''No matches found for player''"
  by (auto simp: player_stats_no_candidate player_stats_resolved)

theorem player_stats_not_found_twice_witness:
  "player_candidates lib_ex (dim_players snap_ex) (replace_pct20 ''borg'') = Some [] \<and>
   player_stats lib_ex snap_ex ''t'' ''borg'' =
     Inl (NotFound (''Player '' @ [CHR 0x27] @ ''borg'' @ [CHR 0x27] @ '' not found'')) \<and>
   player_candidates lib_ex (dim_players snap_ex) (replace_pct20 ''murray'') = Some [murray] \<and>
   all_matches (fact_plus snap_ex) (player_name murray) = [] \<and>
   player_stats lib_ex snap_ex ''t'' ''murray'' = Inl (NotFound ''No matches found for player'')"
proof -
  have h1: "player_candidates lib_ex (dim_players snap_ex) (replace_pct20 ''borg'') = Some []"
    by code_simp
  have h2: "player_candidates lib_ex (dim_players snap_ex) (replace_pct20 ''murray'') = Some [murray]"
    by code_simp
  have h3: "all_matches (fact_plus snap_ex) (player_name murray) = []"
    by code_simp
  have h4: "replace_pct20 ''borg'' = ''borg''"
    by simp
  from player_stats_not_found_twice [where lib = lib_ex and snap = snap_ex and name = "''borg''"
         and now = "''t''"]
       player_stats_not_found_twice [where lib = lib_ex and snap = snap_ex and name = "''murray''"
         and now = "''t''" and p = murray and rest = "[]"]
       h1 h2 h3 h4
  show ?thesis by simp
qed

text \<open>
  C10, as stated, fails: the same request gets one body when the player exists without
  a match and another when the player is absent.
\<close>

theorem player_stats_matchless_differs_from_absent:
  "load_data lib_ex storage_ex = Inr snap_ex \<and>
   load_data lib_ex storage_same_name = Inr snap_same_name \<and>
   player_stats lib_ex snap_ex ''t'' ''murray'' = Inl (NotFound ''No matches found for player'') \<and>
   player_stats lib_ex snap_same_name ''t'' ''murray'' =
     Inl (NotFound (''Player '' @ [CHR 0x27] @ ''murray'' @ [CHR 0x27] @ '' not found'')) \<and>
   player_stats lib_ex snap_ex ''t'' ''murray'' \<noteq> player_stats lib_ex snap_same_name ''t'' ''murray''"
  by code_simp

subsection \<open>Dependence on the time of the call\<close>

lemma restamp_Inl [simp]: "restamp t (Inl e) = Inl e"
  by (simp add: restamp_def)

lemma restamp_Inr [simp]: "restamp t (Inr r) = Inr (r\<lparr>generated_at := t\<rparr>)"
  by (simp add: restamp_def)

lemma player_stats_restamp:
  "player_stats lib snap now name = restamp now (player_stats lib snap now' name)"
  by (simp add: player_stats_def Let_def split: option.splits list.splits)

lemma head_to_head_restamp:
  "head_to_head lib snap now a b = restamp now (head_to_head lib snap now' a b)"
  by (simp add: head_to_head_def Let_def split: option.splits list.splits)

lemma tournament_details_restamp:
  "tournament_details lib snap now name = restamp now (tournament_details lib snap now' name)"
  by (simp add: tournament_details_def Let_def split: option.splits list.splits)

text \<open>
  C9, as amended. The answers of \<open>player_stats\<close>, \<open>head_to_head\<close> and
  \<open>tournament_details\<close> depend on the time of the call through \<^verbatim>\<open>generated_at\<close>
  alone: the answer at one time is the answer at any other time with that key set to
  the time of the call, and a failure is the same at all times. (\<open>list_players\<close> and
  \<open>list_tournaments\<close> take no time at all: they are functions of the snapshot and the
  arguments.)
\<close>

theorem responses_depend_on_time_by_stamp_only:
  "player_stats lib snap now name = restamp now (player_stats lib snap now' name) \<and>
   head_to_head lib snap now a b = restamp now (head_to_head lib snap now' a b) \<and>
   tournament_details lib snap now name = restamp now (tournament_details lib snap now' name)"
  using player_stats_restamp head_to_head_restamp tournament_details_restamp by blast

text \<open>
  C9, as stated, fails: two calls with the same arguments on the same snapshot, a
  microsecond apart, return different values.
\<close>

theorem player_stats_varies_with_call_time:
  "player_stats lib_ex snap_ex ''2024-06-01T10:00:00.000001'' ''nadal'' \<noteq>
   player_stats lib_ex snap_ex ''2024-06-01T10:00:00.000002'' ''nadal'' \<and>
   head_to_head lib_ex snap_ex ''2024-06-01T10:00:00.000001'' ''nadal'' ''federer'' \<noteq>
   head_to_head lib_ex snap_ex ''2024-06-01T10:00:00.000002'' ''nadal'' ''federer'' \<and>
   tournament_details lib_ex snap_ex ''2024-06-01T10:00:00.000001'' ''wimbledon'' \<noteq>
   tournament_details lib_ex snap_ex ''2024-06-01T10:00:00.000002'' ''wimbledon''"
  by code_simp

subsection \<open>The tallies of \<open>head_to_head\<close>\<close>

lemma col_eq_same: "col_eq x a \<Longrightarrow> col_eq x b \<Longrightarrow> a = b"
  by (auto simp: col_eq_def split: option.splits)

lemma two_tallies:
  assumes "a \<noteq> b"
  shows "length (filter (\<lambda>m. col_eq (f m) a) xs) + length (filter (\<lambda>m. col_eq (f m) b) xs)
           \<le> length xs"
proof (induction xs)
  case Nil show ?case by simp
next
  case (Cons x xs)
  have "\<not> (col_eq (f x) a \<and> col_eq (f x) b)"
    using assms col_eq_same by blast
  with Cons show ?case by auto
qed

lemma head_to_head_resolved:
  assumes "h2h_rows lib (fact_plus snap) (replace_pct20 player1) (replace_pct20 player2) = Some (m0 # rest)"
  shows "head_to_head lib snap now player1 player2 =
     Inr \<lparr>generated_at = now, player_1 = p1_name m0, player_2 = p2_name m0,
          head_to_head_counts =
            \<lparr>p1_wins = int (length (filter (\<lambda>m. col_eq (winner_name m) (p1_name m0)) (m0 # rest))),
             p2_wins = int (length (filter (\<lambda>m. col_eq (winner_name m) (p2_name m0)) (m0 # rest))),
             total = int (length (m0 # rest))\<rparr>,
          recent_matches = map (recent_match_row lib) (take 10 (m0 # rest))\<rparr>"
  using assms by (simp add: head_to_head_def Let_def)

lemma head_to_head_Inr:
  assumes "head_to_head lib snap now player1 player2 = Inr r"
  shows "\<exists>m0 rest.
           h2h_rows lib (fact_plus snap) (replace_pct20 player1) (replace_pct20 player2) = Some (m0 # rest) \<and>
           player_1 r = p1_name m0 \<and> player_2 r = p2_name m0 \<and>
           p1_wins (head_to_head_counts r) =
             int (length (filter (\<lambda>m. col_eq (winner_name m) (p1_name m0)) (m0 # rest))) \<and>
           p2_wins (head_to_head_counts r) =
             int (length (filter (\<lambda>m. col_eq (winner_name m) (p2_name m0)) (m0 # rest))) \<and>
           total (head_to_head_counts r) = int (length (m0 # rest)) \<and>
           recent_matches r = map (recent_match_row lib) (take 10 (m0 # rest))"
proof (cases "h2h_rows lib (fact_plus snap) (replace_pct20 player1) (replace_pct20 player2)")
  case None
  with assms show ?thesis by (simp add: head_to_head_def Let_def)
next
  case (Some hs)
  show ?thesis
  proof (cases hs)
    case Nil
    with Some assms show ?thesis by (simp add: head_to_head_def Let_def)
  next
    case (Cons m0 rest)
    with Some have c: "h2h_rows lib (fact_plus snap) (replace_pct20 player1) (replace_pct20 player2)
        = Some (m0 # rest)" by simp
    from assms have "r = \<lparr>generated_at = now, player_1 = p1_name m0, player_2 = p2_name m0,
          head_to_head_counts =
            \<lparr>p1_wins = int (length (filter (\<lambda>m. col_eq (winner_name m) (p1_name m0)) (m0 # rest))),
             p2_wins = int (length (filter (\<lambda>m. col_eq (winner_name m) (p2_name m0)) (m0 # rest))),
             total = int (length (m0 # rest))\<rparr>,
          recent_matches = map (recent_match_row lib) (take 10 (m0 # rest))\<rparr>"
      unfolding head_to_head_resolved[OF c] by simp
    then have "player_1 r = p1_name m0 \<and> player_2 r = p2_name m0 \<and>
           p1_wins (head_to_head_counts r) =
             int (length (filter (\<lambda>m. col_eq (winner_name m) (p1_name m0)) (m0 # rest))) \<and>
           p2_wins (head_to_head_counts r) =
             int (length (filter (\<lambda>m. col_eq (winner_name m) (p2_name m0)) (m0 # rest))) \<and>
           total (head_to_head_counts r) = int (length (m0 # rest)) \<and>
           recent_matches r = map (recent_match_row lib) (take 10 (m0 # rest))"
      by simp
    with c show ?thesis by blast
  qed
qed

text \<open>
  C5, as amended. When \<open>head_to_head\<close> answers (the match set is not empty) and the two
  canonical names differ, \<open>p1_wins + p2_wins \<le> total\<close>; a row whose \<open>winner_name\<close> is
  neither name, or is missing, counts for neither side. It holds whichever row of the
  latest date the sort puts first.
\<close>

theorem head_to_head_win_bound:
  assumes "head_to_head lib snap now player1 player2 = Inr r"
    and "player_1 r \<noteq> player_2 r"
  shows "p1_wins (head_to_head_counts r) + p2_wins (head_to_head_counts r)
           \<le> total (head_to_head_counts r) \<and>
         0 < total (head_to_head_counts r)"
proof -
  from head_to_head_Inr[OF assms(1)] obtain m0 rest where
    h: "h2h_rows lib (fact_plus snap) (replace_pct20 player1) (replace_pct20 player2) = Some (m0 # rest) \<and>
           player_1 r = p1_name m0 \<and> player_2 r = p2_name m0 \<and>
           p1_wins (head_to_head_counts r) =
             int (length (filter (\<lambda>m. col_eq (winner_name m) (p1_name m0)) (m0 # rest))) \<and>
           p2_wins (head_to_head_counts r) =
             int (length (filter (\<lambda>m. col_eq (winner_name m) (p2_name m0)) (m0 # rest))) \<and>
           total (head_to_head_counts r) = int (length (m0 # rest)) \<and>
           recent_matches r = map (recent_match_row lib) (take 10 (m0 # rest))"
    by blast
  from h assms(2) have "p1_name m0 \<noteq> p2_name m0" by simp
  from two_tallies[OF this, of winner_name "m0 # rest"]
  have "int (length (filter (\<lambda>m. col_eq (winner_name m) (p1_name m0)) (m0 # rest))) +
        int (length (filter (\<lambda>m. col_eq (winner_name m) (p2_name m0)) (m0 # rest)))
          \<le> int (length (m0 # rest))"
    by linarith
  moreover have "0 < int (length (m0 # rest))" by simp
  ultimately show ?thesis using h by presburger
qed

theorem head_to_head_win_bound_witness:
  "head_to_head lib_ex snap_ex ''t'' ''nadal'' ''fed'' =
     Inr \<lparr>generated_at = ''t'', player_1 = Some ''Roger Federer'', player_2 = Some ''Rafael Nadal'',
          head_to_head_counts = \<lparr>p1_wins = 0, p2_wins = 2, total = 2\<rparr>,
          recent_matches =
            [\<lparr>rm_Date = ''0000014066'', rm_Tournament = Some ''Wimbledon'', rm_Round = ''The Final'',
              rm_Surface = Some ''Grass'', rm_winner_name = Some ''Rafael Nadal'',
              rm_Score = ''6-4 6-4 6-7 6-7 9-7''\<rparr>,
             \<lparr>rm_Date = ''0000014038'', rm_Tournament = Some ''Roland Garros'', rm_Round = ''The Final'',
              rm_Surface = Some ''Clay'', rm_winner_name = Some ''Rafael Nadal'',
              rm_Score = ''6-1 6-3 6-0''\<rparr>]\<rparr> \<and>
   (0::int) + 2 \<le> 2"
proof -
  have h1: "head_to_head lib_ex snap_ex ''t'' ''nadal'' ''fed'' =
     Inr \<lparr>generated_at = ''t'', player_1 = Some ''Roger Federer'', player_2 = Some ''Rafael Nadal'',
          head_to_head_counts = \<lparr>p1_wins = 0, p2_wins = 2, total = 2\<rparr>,
          recent_matches =
            [\<lparr>rm_Date = ''0000014066'', rm_Tournament = Some ''Wimbledon'', rm_Round = ''The Final'',
              rm_Surface = Some ''Grass'', rm_winner_name = Some ''Rafael Nadal'',
              rm_Score = ''6-4 6-4 6-7 6-7 9-7''\<rparr>,
             \<lparr>rm_Date = ''0000014038'', rm_Tournament = Some ''Roland Garros'', rm_Round = ''The Final'',
              rm_Surface = Some ''Clay'', rm_winner_name = Some ''Rafael Nadal'',
              rm_Score = ''6-1 6-3 6-0''\<rparr>]\<rparr>"
    by code_simp
  from head_to_head_win_bound [OF h1] h1 show ?thesis
    by simp
qed

text \<open>
  C5, as stated, fails when the two canonical names are equal: the one match between
  the two John Smiths is a win of \<^verbatim>\<open>player_1\<close> and a win of \<^verbatim>\<open>player_2\<close>.
\<close>

theorem head_to_head_counts_a_win_twice:
  "load_data lib_ex storage_same_name = Inr snap_same_name \<and>
   map_sum id head_to_head_counts (head_to_head lib_ex snap_same_name ''t'' ''john'' ''smith'') =
     Inr \<lparr>p1_wins = 1, p2_wins = 1, total = 1\<rparr> \<and>
   \<not> ((1::int) + 1 \<le> 1)"
  by code_simp

subsection \<open>The champions of \<open>tournament_details\<close>\<close>

lemma sort_values_desc_perm:
  "\<exists>ps. sort_values_desc lib rows = map snd ps \<and> set ps = set (enumerate 0 rows) \<and>
        length ps = length rows \<and> distinct ps"
  unfolding sort_values_desc_def
  by (intro exI[of _ "sort_key (\<lambda>p. - Date (snd p))
          (sort_key (\<lambda>p. tie_rank lib (map Date rows) (fst p)) (enumerate 0 rows))"])
     (simp add: distinct_enumerate)

lemma set_sort_values_desc: "set (sort_values_desc lib rows) = set rows"
proof -
  have "set (sort_values_desc lib rows) = snd ` set (enumerate 0 rows)"
    by (simp add: sort_values_desc_def)
  also have "\<dots> = set (map snd (enumerate 0 rows))" by (simp only: set_map)
  also have "\<dots> = set rows" by (simp only: map_snd_enumerate)
  finally show ?thesis .
qed

lemma length_sort_values_desc: "length (sort_values_desc lib rows) = length rows"
  by (simp add: sort_values_desc_def)

lemma sorted_sort_values_desc: "sorted_wrt not_earlier (sort_values_desc lib rows)"
proof -
  define ps where
    "ps = sort_key (\<lambda>p. tie_rank lib (map Date rows) (fst p)) (enumerate 0 rows)"
  have "sorted (map (\<lambda>p. - Date (snd p)) (sort_key (\<lambda>p. - Date (snd p)) ps))"
    by (rule sorted_sort_key)
  then have "sorted_wrt (\<lambda>a b. - Date (snd a) \<le> - Date (snd b))
               (sort_key (\<lambda>p. - Date (snd p)) ps)"
    by (simp add: sorted_map)
  then have "sorted_wrt (\<lambda>a b. not_earlier (snd a) (snd b))
               (sort_key (\<lambda>p. - Date (snd p)) ps)"
    by (simp add: not_earlier_def)
  then show ?thesis
    by (simp add: sort_values_desc_def ps_def sorted_wrt_map)
qed

lemma finals_head_props:
  "set (finals_head lib ms) \<subseteq> set ms"
  "list_all is_final (finals_head lib ms)"
  "length (finals_head lib ms) \<le> 10"
  "sorted_wrt not_earlier (finals_head lib ms)"
proof -
  show "set (finals_head lib ms) \<subseteq> set ms"
    unfolding finals_head_def
    using set_take_subset[of 10 "sort_values_desc lib (filter (\<lambda>m. Round m = ''The Final'') ms)"]
    by (auto simp: set_sort_values_desc)
  show "list_all is_final (finals_head lib ms)"
    unfolding finals_head_def list_all_iff
    using set_take_subset[of 10 "sort_values_desc lib (filter (\<lambda>m. Round m = ''The Final'') ms)"]
    by (auto simp: set_sort_values_desc is_final_def)
  show "length (finals_head lib ms) \<le> 10"
    by (simp add: finals_head_def)
  show "sorted_wrt not_earlier (finals_head lib ms)"
    unfolding finals_head_def by (rule sorted_wrt_take[OF sorted_sort_values_desc])
qed

text \<open>The list has ten finals, or all of them when they are fewer.\<close>

lemma length_finals_head:
  "length (finals_head lib ms) = min 10 (length (filter is_final ms))"
proof -
  have "filter (\<lambda>m. Round m = ''The Final'') ms = filter is_final ms"
    by (rule filter_cong[OF refl]) (simp add: is_final_def)
  then show ?thesis
    by (simp add: finals_head_def length_sort_values_desc min.commute)
qed

text \<open>A final that is left out is not later than any final that is kept.\<close>

lemma finals_head_most_recent:
  assumes "m \<in> set ms" and "is_final m" and "m \<notin> set (finals_head lib ms)"
    and "h \<in> set (finals_head lib ms)"
  shows "not_earlier h m"
proof -
  define fs where "fs = sort_values_desc lib (filter (\<lambda>m. Round m = ''The Final'') ms)"
  have "m \<in> set fs"
    using assms(1,2) by (simp add: fs_def set_sort_values_desc is_final_def)
  then have "m \<in> set (take 10 fs) \<union> set (drop 10 fs)"
    unfolding set_append[symmetric] by simp
  moreover from assms(3) have "m \<notin> set (take 10 fs)"
    by (simp add: finals_head_def fs_def)
  ultimately have m: "m \<in> set (drop 10 fs)" by blast
  have "sorted_wrt not_earlier (take 10 fs @ drop 10 fs)"
    by (simp add: fs_def sorted_sort_values_desc)
  then have "\<forall>x \<in> set (take 10 fs). \<forall>y \<in> set (drop 10 fs). not_earlier x y"
    unfolding sorted_wrt_append by blast
  with m assms(4) show ?thesis by (simp add: finals_head_def fs_def)
qed

lemma tournament_details_Inr:
  assumes "tournament_details lib snap now name = Inr r"
  shows "\<exists>ms. tournament_matches lib (fact_plus snap) (replace_pct20 name) = Some ms \<and> ms \<noteq> [] \<and>
           recent_champions r = map (champion lib) (finals_head lib ms) \<and>
           total_matches r = int (length ms)"
  using assms
  by (auto simp: tournament_details_def split: option.splits list.splits)

text \<open>
  C7, as amended. When \<open>tournament_details\<close> answers, \<^verbatim>\<open>recent_champions\<close> is made
  of rows of the match set whose round is \<^verbatim>\<open>The Final\<close>, has at most 10 entries, and
  is sorted descending by date, not necessarily strictly: no entry is earlier than the
  next, and two entries may have one date. The theorem states besides that the list
  has ten entries, or as many as the match set has finals when they are fewer, and
  that a final that is left out is not later than any that is kept. It holds whatever
  order the sort gives to rows of one date.
\<close>

theorem tournament_details_champions:
  assumes "tournament_details lib snap now name = Inr r"
  shows "\<exists>ms. tournament_matches lib (fact_plus snap) (replace_pct20 name) = Some ms \<and>
           recent_champions r = map (champion lib) (finals_head lib ms) \<and>
           set (finals_head lib ms) \<subseteq> set ms \<and>
           list_all is_final (finals_head lib ms) \<and>
           length (recent_champions r) \<le> 10 \<and>
           length (recent_champions r) = min 10 (length (filter is_final ms)) \<and>
           sorted_wrt not_earlier (finals_head lib ms) \<and>
           (\<forall>m \<in> set ms. is_final m \<and> m \<notin> set (finals_head lib ms) \<longrightarrow>
              list_all (\<lambda>h. not_earlier h m) (finals_head lib ms))"
proof -
  from tournament_details_Inr[OF assms] obtain ms where
    ms: "tournament_matches lib (fact_plus snap) (replace_pct20 name) = Some ms"
        "recent_champions r = map (champion lib) (finals_head lib ms)"
    by blast
  have "length (recent_champions r) \<le> 10"
    using finals_head_props(3)[of lib ms] by (simp add: ms(2))
  moreover have "length (recent_champions r) = min 10 (length (filter is_final ms))"
    using length_finals_head[of lib ms] by (simp add: ms(2))
  moreover have "\<forall>m \<in> set ms. is_final m \<and> m \<notin> set (finals_head lib ms) \<longrightarrow>
              list_all (\<lambda>h. not_earlier h m) (finals_head lib ms)"
    unfolding list_all_iff using finals_head_most_recent by blast
  ultimately show ?thesis
    using ms finals_head_props(1,2,4)[of lib ms] by blast
qed

theorem tournament_details_champions_witness:
  "tournament_details lib_ex snap_ex ''t'' ''o'' =
     Inr \<lparr>generated_at = ''t'', tournament = Some ''Roland Garros'', surface = Some ''Clay'',
          series = Some ''Grand Slam'', total_matches = 2,
          recent_champions =
            [\<lparr>ch_year = ''0000014066'', ch_champion = Some ''Rafael Nadal'',
              ch_score = ''6-4 6-4 6-7 6-7 9-7''\<rparr>,
             \<lparr>ch_year = ''0000014038'', ch_champion = Some ''Rafael Nadal'',
              ch_score = ''6-1 6-3 6-0''\<rparr>]\<rparr> \<and>
   map_option (map Date \<circ> finals_head lib_ex)
     (tournament_matches lib_ex (fact_plus snap_ex) (replace_pct20 ''o'')) = Some [14066, 14038]"
proof -
  have h1: "tournament_details lib_ex snap_ex ''t'' ''o'' =
     Inr \<lparr>generated_at = ''t'', tournament = Some ''Roland Garros'', surface = Some ''Clay'',
          series = Some ''Grand Slam'', total_matches = 2,
          recent_champions =
            [\<lparr>ch_year = ''0000014066'', ch_champion = Some ''Rafael Nadal'',
              ch_score = ''6-4 6-4 6-7 6-7 9-7''\<rparr>,
             \<lparr>ch_year = ''0000014038'', ch_champion = Some ''Rafael Nadal'',
              ch_score = ''6-1 6-3 6-0''\<rparr>]\<rparr>"
    by code_simp
  have h2: "map_option (map Date \<circ> finals_head lib_ex)
     (tournament_matches lib_ex (fact_plus snap_ex) (replace_pct20 ''o'')) = Some [14066, 14038]"
    by code_simp
  from tournament_details_champions [OF h1] h1 h2 show ?thesis
    by blast
qed

text \<open>
  C7, as stated, fails on the strict order: ``open'' matches two tournaments whose
  finals have one date, and the list has both.
\<close>

theorem tournament_details_finals_of_one_day:
  "load_data lib_ex storage_opens = Inr snap_opens \<and>
   tournament_matches lib_ex (fact_plus snap_opens) (replace_pct20 ''open'') =
     Some (fact_plus snap_opens) \<and>
   map Date (finals_head lib_ex (fact_plus snap_opens)) = [14252, 14252] \<and>
   \<not> sorted_wrt later (finals_head lib_ex (fact_plus snap_opens)) \<and>
   map_sum id recent_champions (tournament_details lib_ex snap_opens ''t'' ''open'') =
     Inr [\<lparr>ch_year = ''0000014252'', ch_champion = Some ''Andy Murray'', ch_score = ''6-4 6-2''\<rparr>,
          \<lparr>ch_year = ''0000014252'', ch_champion = Some ''Roger Federer'', ch_score = ''6-3 7-6''\<rparr>]"
  by code_simp

subsection \<open>Name matching\<close>

text \<open>\<open>is_in\<close> is the substring relation.\<close>

lemma starts_with_iff: "starts_with sub s \<longleftrightarrow> (\<exists>ys. s = sub @ ys)"
  by (induction sub s rule: starts_with.induct) auto

lemma is_in_iff: "is_in sub s \<longleftrightarrow> (\<exists>xs ys. s = xs @ sub @ ys)"
proof (induction s)
  case Nil
  show ?case by (cases sub) auto
next
  case (Cons c cs)
  show ?case
  proof
    assume "is_in sub (c # cs)"
    then consider "starts_with sub (c # cs)" | "is_in sub cs" by auto
    then show "\<exists>xs ys. c # cs = xs @ sub @ ys"
    proof cases
      case 1
      then obtain ys where "c # cs = sub @ ys" unfolding starts_with_iff by blast
      then have "c # cs = [] @ sub @ ys" by simp
      then show ?thesis by blast
    next
      case 2
      with Cons obtain xs ys where "cs = xs @ sub @ ys" by blast
      then have "c # cs = (c # xs) @ sub @ ys" by simp
      then show ?thesis by blast
    qed
  next
    assume "\<exists>xs ys. c # cs = xs @ sub @ ys"
    then obtain xs ys where e: "c # cs = xs @ sub @ ys" by blast
    show "is_in sub (c # cs)"
    proof (cases xs)
      case Nil
      with e have "starts_with sub (c # cs)" unfolding starts_with_iff by auto
      then show ?thesis by simp
    next
      case (Cons x xs')
      with e have "cs = xs' @ sub @ ys" by simp
      with Cons.IH have "is_in sub cs" by blast
      then show ?thesis by simp
    qed
  qed
qed

text \<open>
  For a query without special characters the pattern search is containment up to case,
  the candidates are the rows whose name contains the query, in table order, and
  \<open>player_stats\<close> resolves to the first of them.
\<close>

lemma match_here_plain:
  assumes "CHR ''.'' \<notin> set q"
  shows "match_here q s = starts_with (lower q) (lower s)"
  using assms
  by (induction q s rule: match_here.induct) (auto simp: lower_def atom_matches_def)

lemma search_dots_plain:
  assumes "CHR ''.'' \<notin> set q"
  shows "search_dots q s = contained_ignoring_case q s"
proof (induction s)
  case Nil
  show ?case by (simp add: contained_ignoring_case_def match_here_plain[OF assms] lower_def)
next
  case (Cons c cs)
  then show ?case
    using match_here_plain[OF assms, of "c # cs"]
    by (simp add: contained_ignoring_case_def lower_def)
qed

lemma str_contains_plain:
  assumes "plain_query q"
  shows "str_contains lib q = Some (name_contains q)"
proof -
  from assms have 1: "list_all (\<lambda>c. c \<notin> set re_special_not_dot) q" and 2: "CHR ''.'' \<notin> set q"
    by (auto simp: plain_query_def list_all_iff)
  have "search_dots q = contained_ignoring_case q"
    using search_dots_plain[OF 2] by (intro ext)
  then show ?thesis
    using 1 by (auto simp: str_contains_def re_search_ignorecase_def name_contains_def
        intro!: ext split: option.splits)
qed

lemma player_candidates_plain:
  assumes "plain_query q"
  shows "player_candidates lib dp q = Some (filter (player_contains q) dp)"
  by (simp add: player_candidates_def str_contains_plain[OF assms] player_contains_def[abs_def])

lemma tournament_matches_plain:
  assumes "plain_query q"
  shows "tournament_matches lib fp q = Some (filter (tournament_contains q) fp)"
  by (simp add: tournament_matches_def str_contains_plain[OF assms] tournament_contains_def[abs_def])

text \<open>
  For a plain query the first player whose name contains it is resolved, and none is
  found when no name contains it.
\<close>

lemma player_stats_plain_first:
  assumes "plain_query (replace_pct20 name)"
    and "filter (player_contains (replace_pct20 name)) (dim_players snap) = p # rest"
    and "player_stats lib snap now name = Inr r"
  shows "player r = player_name p"
  using assms(3) player_stats_resolved[of lib snap name p rest now]
    player_candidates_plain[OF assms(1), of lib "dim_players snap"] assms(2)
  by (auto simp: Let_def split: if_splits)

lemma player_stats_plain_none:
  assumes "plain_query (replace_pct20 name)"
    and "filter (player_contains (replace_pct20 name)) (dim_players snap) = []"
  shows "player_stats lib snap now name =
           Inl (NotFound (''Player '' @ [CHR 0x27] @ replace_pct20 name @ [CHR 0x27] @ '' not found''))"
  using player_stats_no_candidate[of lib snap name now]
    player_candidates_plain[OF assms(1), of lib "dim_players snap"] assms(2)
  by simp

lemma player_stats_invalid_pattern:
  assumes "\<not> list_all (\<lambda>c. c \<notin> set re_special_not_dot) (replace_pct20 name)"
    and "re_compile lib (replace_pct20 name) = None"
  shows "player_stats lib snap now name = Inl (Raised ReError)"
  using assms
  by (simp add: player_stats_def player_candidates_def str_contains_def re_search_ignorecase_def)

text \<open>
  C8. Name resolution. The claim is that a candidate matches if and only if the query
  is a substring of its name, up to case. The code hands the query to
  \<^verbatim>\<open>str.contains\<close> as a regular expression: for every library, the query
  \<^verbatim>\<open>n.dal\<close>, which no player name of the example contains, resolves to Rafael
  Nadal, and \<^verbatim>\<open>w.m\<close>, which no tournament name contains, to Wimbledon.
\<close>

theorem player_stats_reads_dot_as_wildcard:
  "filter (player_contains (replace_pct20 ''n.dal'')) (dim_players snap_ex) = [] \<and>
   player_candidates lib (dim_players snap_ex) (replace_pct20 ''n.dal'') = Some [nadal] \<and>
   map_sum id player (player_stats lib snap_ex now ''n.dal'') = Inr (Some ''Rafael Nadal'') \<and>
   filter (tournament_contains (replace_pct20 ''w.m'')) (fact_plus snap_ex) = [] \<and>
   map_sum id tournament (tournament_details lib snap_ex now ''w.m'') = Inr (Some ''Wimbledon'')"
  by code_simp

lemma h2h_rows_plain_empty:
  assumes "plain_query p1" and "plain_query p2"
  shows "h2h_rows lib [] p1 p2 = Some []"
  by (simp add: h2h_rows_def str_contains_plain[OF assms(1)] str_contains_plain[OF assms(2)]
      sort_values_desc_def)

text \<open>
  On a snapshot whose tables have their columns and no row, a plain query is answered
  by a 404.
\<close>

lemma queries_on_zero_rows:
  assumes "fact_plus snap = []" and "plain_query (replace_pct20 a)" and "plain_query (replace_pct20 b)"
  shows "\<exists>msg. player_stats lib snap now a = Inl (NotFound msg)"
    and "head_to_head lib snap now a b = Inl (NotFound ''No head-to-head matches found'')"
    and "tournament_details lib snap now a = Inl (NotFound ''Tournament not found'')"
proof -
  show "\<exists>msg. player_stats lib snap now a = Inl (NotFound msg)"
  proof (cases "filter (player_contains (replace_pct20 a)) (dim_players snap)")
    case Nil
    from player_stats_plain_none[OF assms(2) this] show ?thesis by blast
  next
    case (Cons p rest)
    with player_candidates_plain[OF assms(2), of lib "dim_players snap"]
    have "player_candidates lib (dim_players snap) (replace_pct20 a) = Some (p # rest)" by simp
    from player_stats_resolved[OF this, of now] assms(1) show ?thesis
      by (simp add: all_matches_def p1_matches_def p2_matches_def)
  qed
  show "head_to_head lib snap now a b = Inl (NotFound ''No head-to-head matches found'')"
    using h2h_rows_plain_empty[OF assms(2,3), of lib] assms(1)
    by (simp add: head_to_head_def)
  show "tournament_details lib snap now a = Inl (NotFound ''Tournament not found'')"
    using tournament_matches_plain[OF assms(2), of lib "[]"] assms(1)
    by (simp add: tournament_details_def)
qed

end
